theory Spec2Isabelle
  imports Complex_Main "HOL-Library.Multiset"
begin

section \<open>Python values and exceptions\<close>

text \<open>
  The simulation stores several values exactly as it receives them (a command's value, an
  aircraft's altitude, a runway's name or width read back from a JSON file), so the model
  has one type of dynamic values. It is also the type of a decoded JSON document:
  \<^verbatim>\<open>json.load\<close> returns dicts with string keys, lists, strings, numbers, booleans and
  \<^verbatim>\<open>None\<close>. An \<^verbatim>\<open>int\<close> is \<open>PInt\<close>. A \<^verbatim>\<open>float\<close> is \<open>PNum\<close> of a real number, with
  \<open>PNum 0\<close> for \<^verbatim>\<open>0.0\<close>, or \<open>PNegZero\<close> for \<^verbatim>\<open>-0.0\<close>: rounding, infinities and NaN are
  outside the model, the sign of a zero is not. A tuple and a list are both \<open>PList\<close>, as
  they are in JSON.
\<close>

datatype pyval =
    PNone
  | PBool bool
  | PInt int
  | PNum real
  | PNegZero
  | PStr string
  | PList "pyval list"
  | PDict "(string \<times> pyval) list"

datatype exn =
    TypeError
  | KeyError
  | AttributeError
  | ValueError
  | OSError
  | JSONDecodeError

text \<open>
  The value of a number, for the operations in which only the value counts (comparison,
  \<^verbatim>\<open>%\<close>, \<^verbatim>\<open>max\<close>, \<^verbatim>\<open>min\<close>). \<^verbatim>\<open>bool\<close> is a subclass of \<^verbatim>\<open>int\<close>: \<^verbatim>\<open>True\<close> is 1.
\<close>

fun num_of :: "pyval \<Rightarrow> real option" where
  "num_of (PNum x) = Some x"
| "num_of (PInt i) = Some (of_int i)"
| "num_of PNegZero = Some 0"
| "num_of (PBool b) = Some (if b then 1 else 0)"
| "num_of _ = None"

text \<open>
  Where the kind of a number counts: a \<^verbatim>\<open>float\<close> with the sign of its zero, and a number
  as an \<^verbatim>\<open>int\<close> or a \<^verbatim>\<open>float\<close>.
\<close>

datatype pyfloat = Fl real | NegZero

fun fval :: "pyfloat \<Rightarrow> real" where
  "fval (Fl r) = r"
| "fval NegZero = 0"

datatype pynum = NInt int | NFloat pyfloat

fun to_float :: "pynum \<Rightarrow> pyfloat" where
  "to_float (NInt i) = Fl (of_int i)"
| "to_float (NFloat f) = f"

fun num_val :: "pynum \<Rightarrow> real" where
  "num_val (NInt i) = of_int i"
| "num_val (NFloat f) = fval f"

fun to_num :: "pyval \<Rightarrow> pynum option" where
  "to_num (PInt i) = Some (NInt i)"
| "to_num (PBool b) = Some (NInt (if b then 1 else 0))"
| "to_num (PNum x) = Some (NFloat (Fl x))"
| "to_num PNegZero = Some (NFloat NegZero)"
| "to_num _ = None"

fun of_float :: "pyfloat \<Rightarrow> pyval" where
  "of_float (Fl r) = PNum r"
| "of_float NegZero = PNegZero"

fun of_num :: "pynum \<Rightarrow> pyval" where
  "of_num (NInt i) = PInt i"
| "of_num (NFloat f) = of_float f"

text \<open>
  Subtraction and negation of floats (IEEE 754, round to nearest): a difference that is
  zero is \<^verbatim>\<open>-0.0\<close> only for \<^verbatim>\<open>-0.0 - 0.0\<close>, and negation flips the sign of a zero.
\<close>

definition fsub :: "pyfloat \<Rightarrow> pyfloat \<Rightarrow> pyfloat" where
  "fsub a b =
     (if fval a - fval b \<noteq> 0 then Fl (fval a - fval b)
      else if a = NegZero \<and> b = Fl 0 then NegZero
      else Fl 0)"

fun fneg :: "pyfloat \<Rightarrow> pyfloat" where
  "fneg NegZero = Fl 0"
| "fneg (Fl r) = (if r = 0 then NegZero else Fl (- r))"

text \<open>
  Python's \<^verbatim>\<open>-\<close> on numbers: two ints give an int, which has one zero; otherwise both
  operands are taken as floats.
\<close>

fun num_sub :: "pynum \<Rightarrow> pynum \<Rightarrow> pynum" where
  "num_sub (NInt a) (NInt b) = NInt (a - b)"
| "num_sub x y = NFloat (fsub (to_float x) (to_float y))"

fun num_neg :: "pynum \<Rightarrow> pynum" where
  "num_neg (NInt a) = NInt (- a)"
| "num_neg (NFloat f) = NFloat (fneg f)"

text \<open>Python's \<^verbatim>\<open>%\<close> on numbers with a positive right operand: the result lies in \<open>[0, m)\<close>.\<close>

definition pymod :: "real \<Rightarrow> real \<Rightarrow> real" where
  "pymod x m = x - m * of_int \<lfloor>x / m\<rfloor>"

text \<open>
  \<^verbatim>\<open>v % 360\<close> for a dynamic value. On a \<^verbatim>\<open>str\<close> the operator is printf-style
  formatting, which raises \<^verbatim>\<open>TypeError\<close> for every string without a conversion
  specifier; the model reads the whole \<^verbatim>\<open>str\<close> case as that error.
\<close>

definition mod360 :: "pyval \<Rightarrow> exn + real" where
  "mod360 v = (case num_of v of None \<Rightarrow> Inl TypeError | Some x \<Rightarrow> Inr (pymod x 360))"

text \<open>\<^verbatim>\<open>max(0, v)\<close>: the comparison raises \<^verbatim>\<open>TypeError\<close> unless \<open>v\<close> is a number.\<close>

definition max0 :: "pyval \<Rightarrow> exn + real" where
  "max0 v = (case num_of v of None \<Rightarrow> Inl TypeError | Some x \<Rightarrow> Inr (max 0 x))"

text \<open>Sequencing of computations that may raise.\<close>

definition bnd :: "exn + 'a \<Rightarrow> ('a \<Rightarrow> exn + 'b) \<Rightarrow> exn + 'b" where
  "bnd m f = (case m of Inl e \<Rightarrow> Inl e | Inr x \<Rightarrow> f x)"

section \<open>Aircraft (tools/aircraft.py)\<close>

type_synonym vec2 = "real \<times> real"

definition vadd :: "vec2 \<Rightarrow> vec2 \<Rightarrow> vec2" where
  "vadd p q = (fst p + fst q, snd p + snd q)"

text \<open>The dict that \<^verbatim>\<open>add_command\<close> appends; the fields are the dict's keys.\<close>

record command =
  cmd_type :: pyval
  cmd_value :: pyval
  execution_time :: pyval
  completed :: bool

text \<open>A trace sample: timestamp, position, heading, speed, status.\<close>

type_synonym sample = "real \<times> vec2 \<times> real \<times> real \<times> string"

record aircraft =
  callsign :: string
  aircraft_type :: string
  position :: vec2
  heading :: real
  speed :: real
  altitude :: pyval
  fuel :: real
  size_px :: "real \<times> real"
  status :: string
  color :: "nat \<times> nat \<times> nat"
  commands :: "command list"
  flight_data :: "sample list"

definition Aircraft_init ::
  "string \<Rightarrow> string \<Rightarrow> vec2 \<Rightarrow> real \<Rightarrow> real \<Rightarrow> real \<times> real \<Rightarrow> aircraft" where
  "Aircraft_init cs ty pos h s sz =
     \<lparr> callsign = cs, aircraft_type = ty, position = pos, heading = h, speed = s,
       altitude = PInt 0, fuel = 100, size_px = sz, status = ''parked'',
       color = (255, 255, 255), commands = [], flight_data = [] \<rparr>"

definition radians :: "real \<Rightarrow> real" where
  "radians d = d * pi / 180"

text \<open>
  \<^verbatim>\<open>move\<close> reads the clock (\<^verbatim>\<open>pygame.time.get_ticks()\<close>, milliseconds) to decide
  whether to append a trace sample; the reading is the parameter \<open>ticks\<close>, one value for
  the test and for the sample's timestamp.
\<close>

definition move :: "real \<Rightarrow> int \<Rightarrow> aircraft \<Rightarrow> aircraft" where
  "move delta_time ticks a =
     (if status a = ''crashed'' then a
      else
        let speed_factor = speed a * (1 / 10);
            rad = radians (heading a);
            dx = sin rad * speed_factor * delta_time;
            dy = - cos rad * speed_factor * delta_time;
            new_position = vadd (position a) (dx, dy);
            a1 = a\<lparr>position := new_position\<rparr>;
            now = real_of_int ticks / 1000
        in if flight_data a1 = [] \<or>
              (flight_data a1 \<noteq> [] \<and> fst (last (flight_data a1)) + 1 < now)
           then a1\<lparr>flight_data := flight_data a1 @
                     [(now, position a1, heading a1, speed a1, status a1)]\<rparr>
           else a1)"

text \<open>A sequence of \<^verbatim>\<open>move\<close> calls, each with its \<open>delta_time\<close> and clock reading.\<close>

fun moves :: "(real \<times> int) list \<Rightarrow> aircraft \<Rightarrow> aircraft" where
  "moves [] a = a"
| "moves ((dt, ticks) # ds) a = moves ds (move dt ticks a)"

definition set_course :: "pyval \<Rightarrow> aircraft \<Rightarrow> exn + aircraft" where
  "set_course new_heading a =
     (case mod360 new_heading of Inl e \<Rightarrow> Inl e | Inr h \<Rightarrow> Inr (a\<lparr>heading := h\<rparr>))"

definition change_speed :: "pyval \<Rightarrow> aircraft \<Rightarrow> exn + aircraft" where
  "change_speed new_speed a =
     (case max0 new_speed of Inl e \<Rightarrow> Inl e | Inr s \<Rightarrow> Inr (a\<lparr>speed := s\<rparr>))"

definition valid_statuses :: "string list" where
  "valid_statuses = [''parked'', ''taxiing'', ''takeoff'', ''landing'', ''airborne'', ''crashed'']"

text \<open>
  \<^verbatim>\<open>new_status in valid_statuses\<close> compares with \<^verbatim>\<open>==\<close>, which is false between a
  string and a value of any other type; nothing is raised.
\<close>

definition change_status :: "pyval \<Rightarrow> aircraft \<Rightarrow> aircraft" where
  "change_status new_status a =
     (case new_status of
        PStr s \<Rightarrow> if s \<in> set valid_statuses then a\<lparr>status := s\<rparr> else a
      | _ \<Rightarrow> a)"

definition add_command :: "pyval \<Rightarrow> pyval \<Rightarrow> pyval \<Rightarrow> aircraft \<Rightarrow> aircraft" where
  "add_command command_type v exec_time a =
     a\<lparr>commands := commands a @
        [\<lparr> cmd_type = command_type, cmd_value = v, execution_time = exec_time,
           completed = False \<rparr>]\<rparr>"

text \<open>
  \<^verbatim>\<open>cmd["execution_time"] is None or current_time >= cmd["execution_time"]\<close>; the
  comparison raises \<^verbatim>\<open>TypeError\<close> when the stored time is not a number.
\<close>

definition is_due :: "real \<Rightarrow> command \<Rightarrow> exn + bool" where
  "is_due current_time cmd =
     (if execution_time cmd = PNone then Inr True
      else case num_of (execution_time cmd) of
             None \<Rightarrow> Inl TypeError
           | Some t \<Rightarrow> Inr (t \<le> current_time))"

text \<open>The \<^verbatim>\<open>if/elif\<close> chain on \<^verbatim>\<open>cmd["type"]\<close>; no \<^verbatim>\<open>else\<close> branch.\<close>

definition apply_cmd :: "command \<Rightarrow> aircraft \<Rightarrow> exn + aircraft" where
  "apply_cmd cmd a =
     (if cmd_type cmd = PStr ''heading'' then set_course (cmd_value cmd) a
      else if cmd_type cmd = PStr ''speed'' then change_speed (cmd_value cmd) a
      else if cmd_type cmd = PStr ''status'' then Inr (change_status (cmd_value cmd) a)
      else if cmd_type cmd = PStr ''altitude'' then Inr (a\<lparr>altitude := cmd_value cmd\<rparr>)
      else Inr a)"

text \<open>
  The \<^verbatim>\<open>for cmd in self.commands\<close> loop. The result is the exception that ended the loop,
  if any, the queue as the loop left it, and the aircraft's other attributes. A command
  whose test or action raises is not marked completed, and the commands after it are not
  reached.
\<close>

fun process_list :: "real \<Rightarrow> command list \<Rightarrow> aircraft \<Rightarrow> exn option \<times> command list \<times> aircraft" where
  "process_list current_time [] a = (None, [], a)"
| "process_list current_time (cmd # cmds) a =
     (if completed cmd then
        (case process_list current_time cmds a of (e, cmds', a') \<Rightarrow> (e, cmd # cmds', a'))
      else
        (case is_due current_time cmd of
           Inl e \<Rightarrow> (Some e, cmd # cmds, a)
         | Inr False \<Rightarrow>
             (case process_list current_time cmds a of (e, cmds', a') \<Rightarrow> (e, cmd # cmds', a'))
         | Inr True \<Rightarrow>
             (case apply_cmd cmd a of
                Inl e \<Rightarrow> (Some e, cmd # cmds, a)
              | Inr a1 \<Rightarrow>
                  (case process_list current_time cmds a1 of
                     (e, cmds', a') \<Rightarrow> (e, cmd\<lparr>completed := True\<rparr> # cmds', a')))))"

definition process_commands :: "real \<Rightarrow> aircraft \<Rightarrow> exn option \<times> aircraft" where
  "process_commands current_time a =
     (case process_list current_time (commands a) a of
        (e, cmds', a') \<Rightarrow> (e, a'\<lparr>commands := cmds'\<rparr>))"

subsection \<open>Notions used to state the queue's properties\<close>

text \<open>A command fires at time \<open>t\<close> when it is not yet completed and its test succeeds.\<close>

definition fires :: "real \<Rightarrow> command \<Rightarrow> bool" where
  "fires t cmd = (\<not> completed cmd \<and> is_due t cmd = Inr True)"

text \<open>The actions of a list of commands, one after the other.\<close>

fun apply_all :: "command list \<Rightarrow> aircraft \<Rightarrow> exn + aircraft" where
  "apply_all [] a = Inr a"
| "apply_all (cmd # cmds) a = bnd (apply_cmd cmd a) (apply_all cmds)"

section \<open>Airport (tools/airport.py)\<close>

subsection \<open>Library operations the airport code calls\<close>

text \<open>
  A \<^verbatim>\<open>Vector2\<close> of the airport: two floats. The sign of a zero coordinate is kept, since
  \<^verbatim>\<open>_calculate_heading\<close> depends on it.
\<close>

type_synonym fvec = "pyfloat \<times> pyfloat"

text \<open>
  \<^verbatim>\<open>pygame.math.Vector2(v)\<close>: a pair of floats from a sequence of two numbers, or from
  one number used for both coordinates. Every other argument is read as an error (the
  library's parsing of a vector's own printed form is outside the model).
\<close>

fun Vector2 :: "pyval \<Rightarrow> exn + fvec" where
  "Vector2 (PList [a, b]) =
     (case (to_num a, to_num b) of
        (Some x, Some y) \<Rightarrow> Inr (to_float x, to_float y)
      | _ \<Rightarrow> Inl ValueError)"
| "Vector2 (PList xs) = Inl ValueError"
| "Vector2 v =
     (case to_num v of
        Some x \<Rightarrow> Inr (to_float x, to_float x)
      | None \<Rightarrow> Inl ValueError)"

text \<open>A \<^verbatim>\<open>Vector2\<close> object seen as a dynamic value: a sequence of its two coordinates.\<close>

definition of_vec :: "fvec \<Rightarrow> pyval" where
  "of_vec p = PList [of_float (fst p), of_float (snd p)]"

text \<open>\<^verbatim>\<open>p[0]\<close> and \<^verbatim>\<open>p[1]\<close> used as numbers.\<close>

fun coords :: "pyval \<Rightarrow> exn + pynum \<times> pynum" where
  "coords (PList (a # b # rest)) =
     (case (to_num a, to_num b) of
        (Some x, Some y) \<Rightarrow> Inr (x, y)
      | _ \<Rightarrow> Inl TypeError)"
| "coords _ = Inl TypeError"

definition distance_to :: "fvec \<Rightarrow> fvec \<Rightarrow> real" where
  "distance_to p q =
     sqrt ((fval (fst q) - fval (fst p))\<^sup>2 + (fval (snd q) - fval (snd p))\<^sup>2)"

text \<open>
  \<^verbatim>\<open>math.atan2(y, x)\<close>, the angle of the point \<open>(x, y)\<close>, with the C library's results
  at the zeros: for \<open>y\<close> a zero the angle is 0 when \<open>x\<close> is positive or \<^verbatim>\<open>0.0\<close>, and
  \<open>pi\<close> or \<open>-pi\<close>, by the sign of \<open>y\<close>, when \<open>x\<close> is negative or \<^verbatim>\<open>-0.0\<close>. The result
  is a real number: the sign of a zero result has no effect on what is computed from it.
\<close>

definition atan2 :: "pyfloat \<Rightarrow> pyfloat \<Rightarrow> real" where
  "atan2 y x =
     (let yv = fval y; xv = fval x in
      if 0 < xv then arctan (yv / xv)
      else if xv < 0 then
        (if 0 < yv \<or> (yv = 0 \<and> y \<noteq> NegZero) then arctan (yv / xv) + pi
         else arctan (yv / xv) - pi)
      else if 0 < yv then pi / 2
      else if yv < 0 then - (pi / 2)
      else if x = NegZero then (if y = NegZero then - pi else pi)
      else 0)"

definition degrees :: "real \<Rightarrow> real" where
  "degrees r = r * 180 / pi"


text \<open>\<^verbatim>\<open>d.get(k, default)\<close>: only a dict has the method.\<close>

fun dict_get :: "pyval \<Rightarrow> string \<Rightarrow> pyval \<Rightarrow> exn + pyval" where
  "dict_get (PDict kvs) k dflt = Inr (case map_of kvs k of None \<Rightarrow> dflt | Some v \<Rightarrow> v)"
| "dict_get _ k dflt = Inl AttributeError"

text \<open>\<^verbatim>\<open>d[k]\<close> with a string key.\<close>

fun subscript :: "pyval \<Rightarrow> string \<Rightarrow> exn + pyval" where
  "subscript (PDict kvs) k = (case map_of kvs k of None \<Rightarrow> Inl KeyError | Some v \<Rightarrow> Inr v)"
| "subscript _ k = Inl TypeError"

text \<open>
  The items a \<^verbatim>\<open>for\<close> loop or a comprehension draws from a value: a list's elements, a
  dict's keys, a string's characters; other values are not iterable.
\<close>

fun py_iter :: "pyval \<Rightarrow> exn + pyval list" where
  "py_iter (PList xs) = Inr xs"
| "py_iter (PDict kvs) = Inr (map (\<lambda>kv. PStr (fst kv)) kvs)"
| "py_iter (PStr s) = Inr (map (\<lambda>c. PStr [c]) s)"
| "py_iter _ = Inl TypeError"

text \<open>\<^verbatim>\<open>[Vector2(p) for p in v]\<close>.\<close>

fun vectors :: "pyval list \<Rightarrow> exn + fvec list" where
  "vectors [] = Inr []"
| "vectors (p # ps) = bnd (Vector2 p) (\<lambda>q. bnd (vectors ps) (\<lambda>qs. Inr (q # qs)))"

subsection \<open>State\<close>

text \<open>
  What a runway, taxiway or gate dict holds under a position key: a \<^verbatim>\<open>Vector2\<close>, as the
  \<^verbatim>\<open>add_*\<close> methods store it, or a value of another kind (a tuple, say), which only a
  dict handed to the constructor can hold: the constructor keeps its lists as given.
\<close>

datatype position = Vec fvec | NotVec pyval

record runway =
  rw_name :: pyval
  start_pos :: position
  end_pos :: position
  rw_width :: pyval
  active :: pyval
  rw_length :: real
  rw_heading :: real

record taxiway =
  tw_name :: pyval
  points :: "position list"
  tw_width :: pyval

record gate =
  gate_name :: pyval
  gate_position :: position
  gate_heading :: pyval
  gate_size :: pyval
  occupied :: bool

text \<open>Buildings are not a parameter of the constructor: only \<^verbatim>\<open>add_building\<close> makes one.\<close>

record building =
  bld_name :: pyval
  polygon :: "fvec list"
  height :: pyval
  bld_type :: pyval

text \<open>
  The weather dict. The three fields that \<^verbatim>\<open>set_weather\<close> computes are numbers, kept by
  their value: whether one is an int or a float has no effect on anything computed from
  it, and none of them is ever \<^verbatim>\<open>-0.0\<close>. The two fields stored as given are dynamic
  values.
\<close>

record weather_dict =
  visibility :: pyval
  fog_density :: real
  wind_direction :: real
  wind_speed :: real
  precipitation :: pyval

record airport =
  name :: pyval
  code :: pyval
  location :: fvec
  runways :: "runway list"
  taxiways :: "taxiway list"
  gates :: "gate list"
  buildings :: "building list"
  weather :: weather_dict
  scale :: real

definition Airport_init ::
  "pyval \<Rightarrow> pyval \<Rightarrow> fvec \<Rightarrow> runway list \<Rightarrow> taxiway list \<Rightarrow> gate list \<Rightarrow> airport" where
  "Airport_init nm cd loc rws tws gts =
     \<lparr> name = nm, code = cd, location = loc, runways = rws, taxiways = tws, gates = gts,
       buildings = [],
       weather = \<lparr> visibility = PInt 10000, fog_density = 0, wind_direction = 0,
                   wind_speed = 0, precipitation = PNone \<rparr>,
       scale = 1 \<rparr>"

subsection \<open>Building the airport\<close>

text \<open>
  \<^verbatim>\<open>_calculate_heading\<close> works on the arguments as \<^verbatim>\<open>add_runway\<close> received them, not on
  the vectors made of them: the differences of two int tuples are ints.
  \<^verbatim>\<open>math.atan2\<close> takes its arguments as floats.
\<close>

definition calculate_heading :: "pyval \<Rightarrow> pyval \<Rightarrow> exn + real" where
  "calculate_heading start_p end_p =
     bnd (coords end_p) (\<lambda>e. bnd (coords start_p) (\<lambda>s.
       let delta_x = num_sub (fst e) (fst s);
           delta_y = num_sub (snd e) (snd s);
           angle_rad = atan2 (to_float delta_x) (to_float (num_neg delta_y));
           angle_deg = degrees angle_rad
       in Inr (pymod angle_deg 360)))"

text \<open>
  Each \<^verbatim>\<open>add_*\<close> method builds its dict first, which may raise, and only then appends
  it; the result is the new element and the airport with it appended.
\<close>

definition add_runway ::
  "pyval \<Rightarrow> pyval \<Rightarrow> pyval \<Rightarrow> pyval \<Rightarrow> pyval \<Rightarrow> airport \<Rightarrow> exn + runway \<times> airport" where
  "add_runway nm start_p end_p width act a =
     bnd (Vector2 start_p) (\<lambda>s. bnd (Vector2 end_p) (\<lambda>e.
     bnd (calculate_heading start_p end_p) (\<lambda>h.
       let rw = \<lparr> rw_name = nm, start_pos = Vec s, end_pos = Vec e, rw_width = width,
                  active = act,
                  rw_length = distance_to s e, rw_heading = h \<rparr>
       in Inr (rw, a\<lparr>runways := runways a @ [rw]\<rparr>))))"

definition add_taxiway :: "pyval \<Rightarrow> pyval \<Rightarrow> pyval \<Rightarrow> airport \<Rightarrow> exn + taxiway \<times> airport" where
  "add_taxiway nm pts width a =
     bnd (bnd (py_iter pts) vectors) (\<lambda>vector_points.
       let tw = \<lparr> tw_name = nm, points = map Vec vector_points, tw_width = width \<rparr>
       in Inr (tw, a\<lparr>taxiways := taxiways a @ [tw]\<rparr>))"

definition add_gate :: "pyval \<Rightarrow> pyval \<Rightarrow> pyval \<Rightarrow> pyval \<Rightarrow> airport \<Rightarrow> exn + gate \<times> airport" where
  "add_gate nm pos hdg sz a =
     bnd (Vector2 pos) (\<lambda>p.
       let g = \<lparr> gate_name = nm, gate_position = Vec p, gate_heading = hdg, gate_size = sz,
                 occupied = False \<rparr>
       in Inr (g, a\<lparr>gates := gates a @ [g]\<rparr>))"

definition add_building :: "pyval \<Rightarrow> pyval \<Rightarrow> pyval \<Rightarrow> pyval \<Rightarrow> airport \<Rightarrow> exn + building \<times> airport" where
  "add_building nm poly h ty a =
     bnd (bnd (py_iter poly) vectors) (\<lambda>vector_points.
       let b = \<lparr> bld_name = nm, polygon = vector_points, height = h, bld_type = ty \<rparr>
       in Inr (b, a\<lparr>buildings := buildings a @ [b]\<rparr>))"

subsection \<open>Weather\<close>

text \<open>\<^verbatim>\<open>max(0, min(1, v))\<close>.\<close>

definition clamp01 :: "pyval \<Rightarrow> exn + real" where
  "clamp01 v = (case num_of v of None \<Rightarrow> Inl TypeError | Some x \<Rightarrow> Inr (max 0 (min 1 x)))"

text \<open>
  \<^verbatim>\<open>set_weather\<close>: five tests in the source's order. An argument left at its default is
  \<open>PNone\<close>. A test that raises leaves the assignments before it in place; the result is
  the exception, if any, and the airport as the call left it.
\<close>

definition set_weather ::
  "pyval \<Rightarrow> pyval \<Rightarrow> pyval \<Rightarrow> pyval \<Rightarrow> pyval \<Rightarrow> airport \<Rightarrow> exn option \<times> airport" where
  "set_weather vis fog wdir wspeed precip a =
     (let a1 = (if vis \<noteq> PNone then a\<lparr>weather := (weather a)\<lparr>visibility := vis\<rparr>\<rparr> else a) in
      case (if fog \<noteq> PNone
            then bnd (clamp01 fog) (\<lambda>x. Inr (a1\<lparr>weather := (weather a1)\<lparr>fog_density := x\<rparr>\<rparr>))
            else Inr a1) of
        Inl e \<Rightarrow> (Some e, a1)
      | Inr a2 \<Rightarrow>
     (case (if wdir \<noteq> PNone
            then bnd (mod360 wdir) (\<lambda>x. Inr (a2\<lparr>weather := (weather a2)\<lparr>wind_direction := x\<rparr>\<rparr>))
            else Inr a2) of
        Inl e \<Rightarrow> (Some e, a2)
      | Inr a3 \<Rightarrow>
     (case (if wspeed \<noteq> PNone
            then bnd (max0 wspeed) (\<lambda>x. Inr (a3\<lparr>weather := (weather a3)\<lparr>wind_speed := x\<rparr>\<rparr>))
            else Inr a3) of
        Inl e \<Rightarrow> (Some e, a3)
      | Inr a4 \<Rightarrow>
          (None, if precip \<noteq> PNone then a4\<lparr>weather := (weather a4)\<lparr>precipitation := precip\<rparr>\<rparr>
                 else a4))))"

text \<open>
  A numeric argument of \<^verbatim>\<open>set_weather\<close>: a number, int or float, or left at its default.
\<close>

fun num_arg :: "pynum option \<Rightarrow> pyval" where
  "num_arg None = PNone"
| "num_arg (Some x) = of_num x"

subsection \<open>Runway selection\<close>

text \<open>The dict that \<^verbatim>\<open>get_active_runways\<close> emits for an active runway.\<close>

record runway_choice =
  runway :: runway
  direction :: string
  ch_heading :: real
  difference :: real






subsection \<open>Loading and saving\<close>

text \<open>
  Statements run in sequence on the airport; each yields the exception it raised, if any,
  and the airport as it left it. The first exception ends the sequence, and what was
  assigned before it stays assigned.
\<close>

fun run_steps :: "(airport \<Rightarrow> exn option \<times> airport) list \<Rightarrow> airport \<Rightarrow> exn option \<times> airport" where
  "run_steps [] a = (None, a)"
| "run_steps (f # fs) a =
     (case f a of
        (None, a') \<Rightarrow> run_steps fs a'
      | (Some e, a') \<Rightarrow> (Some e, a'))"

text \<open>A \<^verbatim>\<open>for\<close> loop whose body may raise.\<close>

fun for_each :: "('x \<Rightarrow> airport \<Rightarrow> exn + airport) \<Rightarrow> 'x list \<Rightarrow> airport \<Rightarrow> exn option \<times> airport" where
  "for_each body [] a = (None, a)"
| "for_each body (x # xs) a =
     (case body x a of
        Inl e \<Rightarrow> (Some e, a)
      | Inr a' \<Rightarrow> for_each body xs a')"

definition step_name :: "pyval \<Rightarrow> airport \<Rightarrow> exn option \<times> airport" where
  "step_name data a =
     (case dict_get data ''name'' (name a) of
        Inl e \<Rightarrow> (Some e, a)
      | Inr v \<Rightarrow> (None, a\<lparr>name := v\<rparr>))"

definition step_code :: "pyval \<Rightarrow> airport \<Rightarrow> exn option \<times> airport" where
  "step_code data a =
     (case dict_get data ''code'' (code a) of
        Inl e \<Rightarrow> (Some e, a)
      | Inr v \<Rightarrow> (None, a\<lparr>code := v\<rparr>))"

definition step_location :: "pyval \<Rightarrow> airport \<Rightarrow> exn option \<times> airport" where
  "step_location data a =
     (case bnd (dict_get data ''location'' (PList [PInt 0, PInt 0])) Vector2 of
        Inl e \<Rightarrow> (Some e, a)
      | Inr p \<Rightarrow> (None, a\<lparr>location := p\<rparr>))"

definition load_runway :: "pyval \<Rightarrow> airport \<Rightarrow> exn + airport" where
  "load_runway runway_data a =
     bnd (bnd (subscript runway_data ''start_pos'') Vector2) (\<lambda>s.
     bnd (bnd (subscript runway_data ''end_pos'') Vector2) (\<lambda>e.
     bnd (subscript runway_data ''name'') (\<lambda>nm.
     bnd (dict_get runway_data ''width'' (PInt 45)) (\<lambda>w.
     bnd (dict_get runway_data ''active'' (PBool True)) (\<lambda>act.
     bnd (add_runway nm (of_vec s) (of_vec e) w act a) (\<lambda>r. Inr (snd r)))))))"

definition step_runways :: "pyval \<Rightarrow> airport \<Rightarrow> exn option \<times> airport" where
  "step_runways data a =
     (let a1 = a\<lparr>runways := []\<rparr> in
      case bnd (dict_get data ''runways'' (PList [])) py_iter of
        Inl e \<Rightarrow> (Some e, a1)
      | Inr items \<Rightarrow> for_each load_runway items a1)"

definition load_taxiway :: "pyval \<Rightarrow> airport \<Rightarrow> exn + airport" where
  "load_taxiway taxiway_data a =
     bnd (bnd (bnd (subscript taxiway_data ''points'') py_iter) vectors) (\<lambda>pts.
     bnd (subscript taxiway_data ''name'') (\<lambda>nm.
     bnd (dict_get taxiway_data ''width'' (PInt 15)) (\<lambda>w.
     bnd (add_taxiway nm (PList (map of_vec pts)) w a) (\<lambda>r. Inr (snd r)))))"

definition step_taxiways :: "pyval \<Rightarrow> airport \<Rightarrow> exn option \<times> airport" where
  "step_taxiways data a =
     (let a1 = a\<lparr>taxiways := []\<rparr> in
      case bnd (dict_get data ''taxiways'' (PList [])) py_iter of
        Inl e \<Rightarrow> (Some e, a1)
      | Inr items \<Rightarrow> for_each load_taxiway items a1)"

definition load_gate :: "pyval \<Rightarrow> airport \<Rightarrow> exn + airport" where
  "load_gate gate_data a =
     bnd (subscript gate_data ''name'') (\<lambda>nm.
     bnd (subscript gate_data ''position'') (\<lambda>pos.
     bnd (dict_get gate_data ''heading'' (PInt 0)) (\<lambda>h.
     bnd (dict_get gate_data ''size'' (PInt 1)) (\<lambda>sz.
     bnd (add_gate nm pos h sz a) (\<lambda>r. Inr (snd r))))))"

definition step_gates :: "pyval \<Rightarrow> airport \<Rightarrow> exn option \<times> airport" where
  "step_gates data a =
     (let a1 = a\<lparr>gates := []\<rparr> in
      case bnd (dict_get data ''gates'' (PList [])) py_iter of
        Inl e \<Rightarrow> (Some e, a1)
      | Inr items \<Rightarrow> for_each load_gate items a1)"

definition load_building :: "pyval \<Rightarrow> airport \<Rightarrow> exn + airport" where
  "load_building building_data a =
     bnd (subscript building_data ''name'') (\<lambda>nm.
     bnd (subscript building_data ''polygon'') (\<lambda>poly.
     bnd (dict_get building_data ''height'' (PInt 10)) (\<lambda>h.
     bnd (dict_get building_data ''type'' (PStr ''terminal'')) (\<lambda>ty.
     bnd (add_building nm poly h ty a) (\<lambda>r. Inr (snd r))))))"

definition step_buildings :: "pyval \<Rightarrow> airport \<Rightarrow> exn option \<times> airport" where
  "step_buildings data a =
     (let a1 = a\<lparr>buildings := []\<rparr> in
      case bnd (dict_get data ''buildings'' (PList [])) py_iter of
        Inl e \<Rightarrow> (Some e, a1)
      | Inr items \<Rightarrow> for_each load_building items a1)"

definition weather_params :: "string list" where
  "weather_params =
     [''visibility'', ''fog_density'', ''wind_direction'', ''wind_speed'', ''precipitation'']"

definition kwarg :: "(string \<times> pyval) list \<Rightarrow> string \<Rightarrow> pyval" where
  "kwarg kvs k = (case map_of kvs k of None \<Rightarrow> PNone | Some v \<Rightarrow> v)"

text \<open>
  \<^verbatim>\<open>self.set_weather(**w)\<close>: \<open>w\<close> must be a dict, and a key that is not a parameter of
  \<^verbatim>\<open>set_weather\<close> is a \<^verbatim>\<open>TypeError\<close>; parameters without a key keep their default.
\<close>

definition call_set_weather :: "pyval \<Rightarrow> airport \<Rightarrow> exn option \<times> airport" where
  "call_set_weather w a =
     (case w of
        PDict kvs \<Rightarrow>
          if list_all (\<lambda>kv. fst kv \<in> set weather_params) kvs
          then set_weather (kwarg kvs ''visibility'') (kwarg kvs ''fog_density'')
                 (kwarg kvs ''wind_direction'') (kwarg kvs ''wind_speed'')
                 (kwarg kvs ''precipitation'') a
          else (Some TypeError, a)
      | _ \<Rightarrow> (Some TypeError, a))"

text \<open>
  \<^verbatim>\<open>if "weather" in data\<close>. The statement is reached only when \<open>data\<close> is a dict: any other
  value has no \<^verbatim>\<open>get\<close> method and has raised at the first statement.
\<close>

definition step_weather :: "pyval \<Rightarrow> airport \<Rightarrow> exn option \<times> airport" where
  "step_weather data a =
     (case data of
        PDict kvs \<Rightarrow>
          (case map_of kvs ''weather'' of
             None \<Rightarrow> (None, a)
           | Some w \<Rightarrow> call_set_weather w a)
      | _ \<Rightarrow> (Some TypeError, a))"

text \<open>
  The body of the \<^verbatim>\<open>try\<close> block of \<^verbatim>\<open>load_from_file\<close>. Opening and decoding the file
  is the environment's part: \<open>rd\<close> is its outcome, the decoded document or the exception
  raised.
\<close>

definition load_body :: "exn + pyval \<Rightarrow> airport \<Rightarrow> exn option \<times> airport" where
  "load_body rd a =
     (case rd of
        Inl e \<Rightarrow> (Some e, a)
      | Inr data \<Rightarrow>
          run_steps [step_name data, step_code data, step_location data, step_runways data,
                     step_taxiways data, step_gates data, step_buildings data,
                     step_weather data] a)"

text \<open>What is printed: the diagnostic of the \<^verbatim>\<open>except\<close> branch, with the exception.\<close>

datatype diagnostic = LoadError exn | SaveError exn

text \<open>The result is the returned flag, the airport after the call, and what was printed.\<close>

definition load_from_file :: "exn + pyval \<Rightarrow> airport \<Rightarrow> bool \<times> airport \<times> diagnostic list" where
  "load_from_file rd a =
     (case load_body rd a of
        (None, a') \<Rightarrow> (True, a', [])
      | (Some e, a') \<Rightarrow> (False, a', [LoadError e]))"

text \<open>
  \<^verbatim>\<open>(p.x, p.y)\<close>: only a \<^verbatim>\<open>Vector2\<close> has the attributes; on a tuple, a list, a number,
  a string, a dict or \<^verbatim>\<open>None\<close> the access raises \<^verbatim>\<open>AttributeError\<close>.
\<close>

fun xy :: "position \<Rightarrow> exn + pyval" where
  "xy (Vec v) = Inr (of_vec v)"
| "xy (NotVec v) = Inl AttributeError"

text \<open>A loop or comprehension that builds a list and whose body may raise.\<close>

fun try_map :: "('x \<Rightarrow> exn + 'y) \<Rightarrow> 'x list \<Rightarrow> exn + 'y list" where
  "try_map f [] = Inr []"
| "try_map f (x # xs) = bnd (f x) (\<lambda>y. bnd (try_map f xs) (\<lambda>ys. Inr (y # ys)))"

definition save_runway :: "runway \<Rightarrow> exn + pyval" where
  "save_runway rw =
     bnd (xy (start_pos rw)) (\<lambda>s. bnd (xy (end_pos rw)) (\<lambda>e.
       Inr (PDict [(''name'', rw_name rw), (''start_pos'', s), (''end_pos'', e),
                   (''width'', rw_width rw), (''active'', active rw)])))"

definition save_taxiway :: "taxiway \<Rightarrow> exn + pyval" where
  "save_taxiway tw =
     bnd (try_map xy (points tw)) (\<lambda>ps.
       Inr (PDict [(''name'', tw_name tw), (''points'', PList ps), (''width'', tw_width tw)]))"

definition save_gate :: "gate \<Rightarrow> exn + pyval" where
  "save_gate g =
     bnd (xy (gate_position g)) (\<lambda>p.
       Inr (PDict [(''name'', gate_name g), (''position'', p), (''heading'', gate_heading g),
                   (''size'', gate_size g), (''occupied'', PBool (occupied g))]))"

definition save_building :: "building \<Rightarrow> pyval" where
  "save_building b =
     PDict [(''name'', bld_name b), (''polygon'', PList (map of_vec (polygon b))),
            (''height'', height b), (''type'', bld_type b)]"

text \<open>\<^verbatim>\<open>"weather": self.weather\<close>; the three computed fields are written by their value.\<close>

definition save_weather :: "weather_dict \<Rightarrow> pyval" where
  "save_weather w =
     PDict [(''visibility'', visibility w), (''fog_density'', PNum (fog_density w)),
            (''wind_direction'', PNum (wind_direction w)),
            (''wind_speed'', PNum (wind_speed w)), (''precipitation'', precipitation w)]"

text \<open>
  The dict \<^verbatim>\<open>data\<close> that \<^verbatim>\<open>save_to_file\<close> assembles, in the source's order: the runways,
  the taxiways, the gates, the buildings. The first attribute access that raises ends the
  assembly.
\<close>

definition save_data :: "airport \<Rightarrow> exn + pyval" where
  "save_data a =
     bnd (try_map save_runway (runways a)) (\<lambda>rws.
     bnd (try_map save_taxiway (taxiways a)) (\<lambda>tws.
     bnd (try_map save_gate (gates a)) (\<lambda>gts.
       Inr (PDict [(''name'', name a), (''code'', code a), (''location'', of_vec (location a)),
                   (''runways'', PList rws), (''taxiways'', PList tws), (''gates'', PList gts),
                   (''buildings'', PList (map save_building (buildings a))),
                   (''weather'', save_weather (weather a))]))))"

text \<open>
  \<^verbatim>\<open>save_to_file\<close> assembles the dict first and only then enters its \<^verbatim>\<open>try\<close> block, which
  holds the opening of the file and \<^verbatim>\<open>json.dump\<close>. Those two are the environment's part:
  \<open>wr\<close> is the exception they raise, if any. The result is \<open>Inl\<close> of an exception that
  leaves the function, or \<open>Inr\<close> of the returned flag, the document the file holds when
  the write completed (after a failure the file's content is not known), and what was
  printed. A document read back is the document written: JSON encodes each of these
  values without loss.
\<close>

definition save_to_file ::
  "exn option \<Rightarrow> airport \<Rightarrow> exn + bool \<times> pyval option \<times> diagnostic list" where
  "save_to_file wr a =
     bnd (save_data a) (\<lambda>data.
       case wr of
         None \<Rightarrow> Inr (True, Some data, [])
       | Some e \<Rightarrow> Inr (False, None, [SaveError e]))"

subsection \<open>Notions used to state the round trip\<close>

text \<open>
  The heading that \<^verbatim>\<open>_calculate_heading\<close> derives from two vectors, which is how the load
  calls it.
\<close>

definition derived_heading :: "fvec \<Rightarrow> fvec \<Rightarrow> real" where
  "derived_heading s e =
     pymod (degrees (atan2 (fsub (fst e) (fst s)) (fneg (fsub (snd e) (snd s))))) 360"

text \<open>Two vectors are the same point (\<^verbatim>\<open>-0.0 == 0.0\<close>).\<close>

definition same_point :: "fvec \<Rightarrow> fvec \<Rightarrow> bool" where
  "same_point p q = (fval (fst p) = fval (fst q) \<and> fval (snd p) = fval (snd q))"

text \<open>A runway with its two derived fields computed anew from its end points.\<close>

definition rebuild_runway :: "runway \<Rightarrow> runway" where
  "rebuild_runway rw =
     (case (start_pos rw, end_pos rw) of
        (Vec s, Vec e) \<Rightarrow> rw\<lparr> rw_length := distance_to s e, rw_heading := derived_heading s e \<rparr>
      | _ \<Rightarrow> rw)"

text \<open>The runway's derived fields are those its end points give.\<close>

definition derived_fields :: "runway \<Rightarrow> bool" where
  "derived_fields rw =
     (case (start_pos rw, end_pos rw) of
        (Vec s, Vec e) \<Rightarrow> rw_length rw = distance_to s e \<and> rw_heading rw = derived_heading s e
      | _ \<Rightarrow> False)"

text \<open>
  The weather after loading a saved weather dict into an airport whose weather was \<open>old\<close>:
  \<^verbatim>\<open>set_weather\<close> is applied to the saved values, and a saved \<^verbatim>\<open>None\<close> counts as unset.
\<close>

definition reload_weather :: "weather_dict \<Rightarrow> weather_dict \<Rightarrow> weather_dict" where
  "reload_weather saved old =
     \<lparr> visibility = (if visibility saved = PNone then visibility old else visibility saved),
       fog_density = max 0 (min 1 (fog_density saved)),
       wind_direction = pymod (wind_direction saved) 360,
       wind_speed = max 0 (wind_speed saved),
       precipitation = (if precipitation saved = PNone then precipitation old
                        else precipitation saved) \<rparr>"

section \<open>Properties of the aircraft\<close>

lemma move_crashed: "status a = ''crashed'' \<Longrightarrow> move dt ticks a = a"
  by (simp add: move_def)

text \<open>
  C3. A crashed aircraft does not move: after any sequence of \<^verbatim>\<open>move\<close> calls, with any
  \<open>delta_time\<close> values and clock readings, its position is the one it had (and so is
  every other attribute).
\<close>

theorem crashed_moves_keep_position:
  assumes "status a = ''crashed''"
  shows "position (moves ds a) = position a \<and> moves ds a = a"
  using assms
proof (induction ds arbitrary: a)
  case Nil
  then show ?case by simp
next
  case (Cons d ds)
  obtain dt ticks where d: "d = (dt, ticks)" by (cases d)
  from Cons.prems have "move dt ticks a = a" by (rule move_crashed)
  with Cons d show ?case by simp
qed

theorem crashed_moves_keep_position_witness:
  "status ((Aircraft_init ''KLM4805'' ''Boeing 747-200'' (3, 4) 90 150 (50, 50))\<lparr>status := ''crashed''\<rparr>)
     = ''crashed''
   \<and> position (moves [(1, 0), (5 / 2, 1000)]
        ((Aircraft_init ''KLM4805'' ''Boeing 747-200'' (3, 4) 90 150 (50, 50))\<lparr>status := ''crashed''\<rparr>))
     = (3, 4)"
  using crashed_moves_keep_position
    [of "(Aircraft_init ''KLM4805'' ''Boeing 747-200'' (3, 4) 90 150 (50, 50))\<lparr>status := ''crashed''\<rparr>"
        "[(1, 0), (5 / 2, 1000)]"]
  by (simp add: Aircraft_init_def)

text \<open>
  C5. An aircraft that is not crashed is displaced by \<^verbatim>\<open>move(dt)\<close> by
  \<open>(sin h * speed * scale * dt, - cos h * speed * scale * dt)\<close>, where \<open>h\<close> is the heading
  in radians and the scale is the constant \<open>1 / 10\<close>. In particular an aircraft created at
  \<open>(0, 0)\<close> with heading 0 and speed 100 is at \<open>(0, - 100 * scale)\<close> after \<^verbatim>\<open>move(1)\<close>.
  Numbers are real numbers here; the rounding of floating-point arithmetic is not modelled.
\<close>

theorem move_displacement:
  assumes "status a \<noteq> ''crashed''"
  shows "position (move dt ticks a) =
           (fst (position a) + sin (radians (heading a)) * speed a * (1 / 10) * dt,
            snd (position a) + - cos (radians (heading a)) * speed a * (1 / 10) * dt)
         \<and> position (move 1 ticks (Aircraft_init cs ty (0, 0) 0 100 sz)) = (0, - 100 * (1 / 10))"
  using assms by (simp add: move_def Let_def vadd_def radians_def Aircraft_init_def)

theorem move_displacement_witness:
  "status (Aircraft_init ''KLM4805'' ''Boeing 747-200'' (0, 0) 0 100 (50, 50)) \<noteq> ''crashed''
   \<and> position (move 2 0 (Aircraft_init ''KLM4805'' ''Boeing 747-200'' (0, 0) 0 100 (50, 50)))
     = (0, - 20)"
  using move_displacement
    [of "Aircraft_init ''KLM4805'' ''Boeing 747-200'' (0, 0) 0 100 (50, 50)" 2 0]
  by (simp add: Aircraft_init_def radians_def)

text \<open>
  C8. \<^verbatim>\<open>change_status\<close> with a value that is not one of the six valid statuses leaves the
  aircraft as it was (the function has no error result: nothing is signalled); with one of
  the six it sets the status to that value and changes nothing else.
\<close>

theorem change_status_valid_or_ignored:
  "(v \<notin> PStr ` {''parked'', ''taxiing'', ''takeoff'', ''landing'', ''airborne'', ''crashed''}
      \<longrightarrow> change_status v a = a)
   \<and> (s \<in> {''parked'', ''taxiing'', ''takeoff'', ''landing'', ''airborne'', ''crashed''}
      \<longrightarrow> change_status (PStr s) a = a\<lparr>status := s\<rparr>)"
  by (cases v) (auto simp: change_status_def valid_statuses_def)

theorem change_status_valid_or_ignored_witness:
  "change_status (PStr ''flying'') (Aircraft_init ''A'' ''B'' (0, 0) 0 0 (1, 1))
     = Aircraft_init ''A'' ''B'' (0, 0) 0 0 (1, 1)
   \<and> change_status (PNum 3) (Aircraft_init ''A'' ''B'' (0, 0) 0 0 (1, 1))
     = Aircraft_init ''A'' ''B'' (0, 0) 0 0 (1, 1)
   \<and> status (change_status (PStr ''airborne'') (Aircraft_init ''A'' ''B'' (0, 0) 0 0 (1, 1)))
     = ''airborne''"
  using change_status_valid_or_ignored
      [of "PStr ''flying''" "Aircraft_init ''A'' ''B'' (0, 0) 0 0 (1, 1)" "''airborne''"]
    change_status_valid_or_ignored
      [of "PNum 3" "Aircraft_init ''A'' ''B'' (0, 0) 0 0 (1, 1)" "''airborne''"]
  by simp

lemma process_list_append:
  "process_list t (xs @ ys) a =
     (case process_list t xs a of
        (None, xs', a') \<Rightarrow> (case process_list t ys a' of (e, ys', a'') \<Rightarrow> (e, xs' @ ys', a''))
      | (Some e, xs', a') \<Rightarrow> (Some e, xs' @ ys, a'))"
proof (induction xs arbitrary: a)
  case Nil
  show ?case by (simp split: prod.splits)
next
  case (Cons x xs)
  show ?case
    by (simp add: Cons.IH split: prod.splits option.splits sum.splits bool.splits)
qed

lemma process_list_marks:
  "process_list t cs a = (None, cs', a') \<Longrightarrow>
     cs' = map (\<lambda>c. if fires t c then c\<lparr>completed := True\<rparr> else c) cs"
  by (induction cs arbitrary: a cs' a')
     (auto simp: fires_def split: prod.splits sum.splits bool.splits if_splits)

lemma process_list_applies:
  "process_list t cs a = (None, cs', a') \<Longrightarrow> apply_all (filter (fires t) cs) a = Inr a'"
  by (induction cs arbitrary: a cs' a')
     (auto simp: fires_def bnd_def split: prod.splits sum.splits bool.splits if_splits)

lemma process_list_again:
  "process_list t cs a = (None, cs', a') \<Longrightarrow> process_list t cs' b = (None, cs', b)"
  by (induction cs arbitrary: a cs' a')
     (auto simp: fires_def split: prod.splits sum.splits bool.splits if_splits)

text \<open>
  C4. When \<^verbatim>\<open>process_commands(t)\<close> returns (no command's test or action raised), the
  commands that fired are exactly those that were not completed and whose
  \<open>execution_time\<close> is \<^verbatim>\<open>None\<close> or at most \<open>t\<close>; their actions were applied in
  insertion order, each of them is now marked completed, and nothing else in the queue
  changed. A second call with the same \<open>t\<close> changes nothing at all. A command fires only
  while it is not completed, so it executes at most once.
\<close>

theorem process_commands_once:
  assumes "process_commands t a = (None, a')"
  shows "(\<exists>b. apply_all (filter (fires t) (commands a)) a = Inr b
             \<and> a' = b\<lparr>commands := map (\<lambda>c. if fires t c then c\<lparr>completed := True\<rparr> else c) (commands a)\<rparr>)
         \<and> process_commands t a' = (None, a')"
proof -
  from assms obtain cs' b where pl: "process_list t (commands a) a = (None, cs', b)"
    and a': "a' = b\<lparr>commands := cs'\<rparr>"
    by (auto simp: process_commands_def split: prod.splits)
  have again: "process_list t cs' a' = (None, cs', a')"
    by (rule process_list_again [OF pl])
  have "process_commands t a' = (None, a')"
    using again a' by (simp add: process_commands_def)
  with process_list_marks [OF pl] process_list_applies [OF pl] a' show ?thesis by simp
qed

theorem process_commands_once_witness:
  "process_commands 5
     (add_command (PStr ''altitude'') (PNum 3000) (PNum 3)
       (add_command (PStr ''speed'') (PNum (- 5)) (PNum 10)
         (add_command (PStr ''heading'') (PNum 450) PNone
           (Aircraft_init ''KLM4805'' ''Boeing 747-200'' (0, 0) 0 100 (50, 50)))))
   = (None,
      (Aircraft_init ''KLM4805'' ''Boeing 747-200'' (0, 0) 0 100 (50, 50))
        \<lparr> heading := 90, altitude := PNum 3000,
          commands :=
            [\<lparr> cmd_type = PStr ''heading'', cmd_value = PNum 450, execution_time = PNone,
               completed = True \<rparr>,
             \<lparr> cmd_type = PStr ''speed'', cmd_value = PNum (- 5), execution_time = PNum 10,
               completed = False \<rparr>,
             \<lparr> cmd_type = PStr ''altitude'', cmd_value = PNum 3000, execution_time = PNum 3,
               completed = True \<rparr>] \<rparr>)
   \<and> process_commands 5
      ((Aircraft_init ''KLM4805'' ''Boeing 747-200'' (0, 0) 0 100 (50, 50))
        \<lparr> heading := 90, altitude := PNum 3000,
          commands :=
            [\<lparr> cmd_type = PStr ''heading'', cmd_value = PNum 450, execution_time = PNone,
               completed = True \<rparr>,
             \<lparr> cmd_type = PStr ''speed'', cmd_value = PNum (- 5), execution_time = PNum 10,
               completed = False \<rparr>,
             \<lparr> cmd_type = PStr ''altitude'', cmd_value = PNum 3000, execution_time = PNum 3,
               completed = True \<rparr>] \<rparr>)
   = (None,
      (Aircraft_init ''KLM4805'' ''Boeing 747-200'' (0, 0) 0 100 (50, 50))
        \<lparr> heading := 90, altitude := PNum 3000,
          commands :=
            [\<lparr> cmd_type = PStr ''heading'', cmd_value = PNum 450, execution_time = PNone,
               completed = True \<rparr>,
             \<lparr> cmd_type = PStr ''speed'', cmd_value = PNum (- 5), execution_time = PNum 10,
               completed = False \<rparr>,
             \<lparr> cmd_type = PStr ''altitude'', cmd_value = PNum 3000, execution_time = PNum 3,
               completed = True \<rparr>] \<rparr>)"
  (is "?first \<and> ?second")
proof -
  have first: ?first
    by (simp add: add_command_def Aircraft_init_def process_commands_def is_due_def
        apply_cmd_def set_course_def mod360_def pymod_def)
  from process_commands_once [OF first] have ?second by (rule conjunct2)
  with first show ?thesis by (rule conjI)
qed

text \<open>
  C10. A queued command whose type is none of \<open>heading\<close>, \<open>speed\<close>, \<open>status\<close>,
  \<open>altitude\<close> and which is due changes no attribute of the aircraft: when the loop
  reaches it (the commands before it were processed without an exception), it is marked
  completed and the loop goes on with the aircraft as it was. Once completed it is skipped
  by every later call, at any time.
\<close>

theorem unknown_command_consumed_once:
  assumes "cmd_type c \<notin> {PStr ''heading'', PStr ''speed'', PStr ''status'', PStr ''altitude''}"
    and "\<not> completed c"
    and "is_due t c = Inr True"
    and "process_list t pre a = (None, pre', a1)"
  shows "apply_cmd c a1 = Inr a1
         \<and> process_list t (pre @ c # post) a =
             (case process_list t post a1 of
                (e, post', a2) \<Rightarrow> (e, pre' @ c\<lparr>completed := True\<rparr> # post', a2))
         \<and> (commands a = pre @ c # post \<longrightarrow>
              process_commands t a =
                (case process_list t post a1 of
                   (e, post', a2) \<Rightarrow>
                     (e, a2\<lparr>commands := pre' @ c\<lparr>completed := True\<rparr> # post'\<rparr>)))
         \<and> process_list t2 (c\<lparr>completed := True\<rparr> # rest) b =
             (case process_list t2 rest b of
                (e, rest', b') \<Rightarrow> (e, c\<lparr>completed := True\<rparr> # rest', b'))"
proof -
  from assms(1) have noop: "apply_cmd c a1 = Inr a1"
    by (simp add: apply_cmd_def)
  have here: "process_list t (c # post) a1 =
      (case process_list t post a1 of
         (e, post', a2) \<Rightarrow> (e, c\<lparr>completed := True\<rparr> # post', a2))"
    using assms(2,3) noop by simp
  have "process_list t (pre @ c # post) a =
      (case process_list t (c # post) a1 of (e, ys', a2) \<Rightarrow> (e, pre' @ ys', a2))"
    using assms(4) by (simp add: process_list_append del: process_list.simps)
  also have "\<dots> =
      (case process_list t post a1 of
         (e, post', a2) \<Rightarrow> (e, pre' @ c\<lparr>completed := True\<rparr> # post', a2))"
    unfolding here by (simp split: prod.splits)
  finally have there: "process_list t (pre @ c # post) a =
      (case process_list t post a1 of
         (e, post', a2) \<Rightarrow> (e, pre' @ c\<lparr>completed := True\<rparr> # post', a2))" .
  have again: "process_list t2 (c\<lparr>completed := True\<rparr> # rest) b =
      (case process_list t2 rest b of
         (e, rest', b') \<Rightarrow> (e, c\<lparr>completed := True\<rparr> # rest', b'))"
    by simp
  have whole: "commands a = pre @ c # post \<longrightarrow>
      process_commands t a =
        (case process_list t post a1 of
           (e, post', a2) \<Rightarrow>
             (e, a2\<lparr>commands := pre' @ c\<lparr>completed := True\<rparr> # post'\<rparr>))"
    using there by (simp add: process_commands_def split: prod.splits del: process_list.simps)
  from noop there whole again show ?thesis by blast
qed

theorem unknown_command_consumed_once_witness:
  "process_commands 0
     (add_command (PStr ''speed'') (PNum 120) PNone
       (add_command (PStr ''squawk'') (PNum 7700) PNone
         (add_command (PStr ''altitude'') (PNum 3000) PNone
           (Aircraft_init ''KLM4805'' ''Boeing 747-200'' (0, 0) 0 100 (50, 50)))))
   = (None,
      (Aircraft_init ''KLM4805'' ''Boeing 747-200'' (0, 0) 0 100 (50, 50))
        \<lparr> speed := 120, altitude := PNum 3000,
          commands :=
            [\<lparr> cmd_type = PStr ''altitude'', cmd_value = PNum 3000, execution_time = PNone,
               completed = True \<rparr>,
             \<lparr> cmd_type = PStr ''squawk'', cmd_value = PNum 7700, execution_time = PNone,
               completed = True \<rparr>,
             \<lparr> cmd_type = PStr ''speed'', cmd_value = PNum 120, execution_time = PNone,
               completed = True \<rparr>] \<rparr>)"
proof -
  let ?c1 = "\<lparr> cmd_type = PStr ''altitude'', cmd_value = PNum 3000, execution_time = PNone,
               completed = False \<rparr>"
  let ?c = "\<lparr> cmd_type = PStr ''squawk'', cmd_value = PNum 7700, execution_time = PNone,
               completed = False \<rparr>"
  let ?c3 = "\<lparr> cmd_type = PStr ''speed'', cmd_value = PNum 120, execution_time = PNone,
               completed = False \<rparr>"
  let ?a = "(Aircraft_init ''KLM4805'' ''Boeing 747-200'' (0, 0) 0 100 (50, 50))
              \<lparr>commands := [?c1, ?c, ?c3]\<rparr>"
  have h1: "cmd_type ?c \<notin> {PStr ''heading'', PStr ''speed'', PStr ''status'', PStr ''altitude''}"
    by simp
  have h2: "\<not> completed ?c" by simp
  have h3: "is_due 0 ?c = Inr True" by (simp add: is_due_def)
  have h4: "process_list 0 [?c1] ?a = (None, [?c1\<lparr>completed := True\<rparr>], ?a\<lparr>altitude := PNum 3000\<rparr>)"
    by (simp add: is_due_def apply_cmd_def)
  have post: "process_list 0 [?c3] (?a\<lparr>altitude := PNum 3000\<rparr>)
      = (None, [?c3\<lparr>completed := True\<rparr>], ?a\<lparr>altitude := PNum 3000, speed := 120\<rparr>)"
    by (simp add: is_due_def apply_cmd_def change_speed_def max0_def)
  from unknown_command_consumed_once [OF h1 h2 h3 h4, of "[?c3]"]
  have "process_list 0 ([?c1] @ ?c # [?c3]) ?a =
      (case process_list 0 [?c3] (?a\<lparr>altitude := PNum 3000\<rparr>) of
         (e, post', a2) \<Rightarrow> (e, [?c1\<lparr>completed := True\<rparr>] @ ?c\<lparr>completed := True\<rparr> # post', a2))"
    by blast
  then have "process_list 0 [?c1, ?c, ?c3] ?a =
      (None, [?c1\<lparr>completed := True\<rparr>, ?c\<lparr>completed := True\<rparr>, ?c3\<lparr>completed := True\<rparr>],
       ?a\<lparr>altitude := PNum 3000, speed := 120\<rparr>)"
    unfolding post by (simp del: process_list.simps)
  then show ?thesis
    by (simp add: process_commands_def add_command_def Aircraft_init_def del: process_list.simps)
qed

section \<open>Properties of the airport\<close>

lemma num_of_of_num: "num_of (of_num n) = Some (num_val n)"
proof (cases n)
  case (NInt i)
  then show ?thesis by simp
next
  case (NFloat f)
  then show ?thesis by (cases f) simp_all
qed

lemma of_num_not_None: "of_num n \<noteq> PNone"
proof (cases n)
  case (NInt i)
  then show ?thesis by simp
next
  case (NFloat f)
  then show ?thesis by (cases f) simp_all
qed

lemma pymod_range: "0 < m \<Longrightarrow> 0 \<le> pymod x m \<and> pymod x m < m"
proof -
  assume m: "0 < m"
  have lo: "of_int \<lfloor>x / m\<rfloor> \<le> x / m" by (rule of_int_floor_le)
  have 1: "of_int \<lfloor>x / m\<rfloor> * m \<le> x"
    using pos_le_divide_eq [OF m, of "of_int \<lfloor>x / m\<rfloor>" x] lo by blast
  have hi: "x / m < of_int \<lfloor>x / m\<rfloor> + 1" by linarith
  have 2: "x < (of_int \<lfloor>x / m\<rfloor> + 1) * m"
    using pos_divide_less_eq [OF m, of x "of_int \<lfloor>x / m\<rfloor> + 1"] hi by blast
  from 1 2 show ?thesis by (simp add: pymod_def algebra_simps)
qed

text \<open>
  C6. \<^verbatim>\<open>set_weather\<close> is a partial update. A parameter left unset leaves its field as it
  was. A supplied fog density (int or float) is stored clamped to \<open>[0, 1]\<close> (1.5 is stored as 1 and
  -0.2 as 0), a supplied wind direction is stored reduced modulo 360 (in \<open>[0, 360)\<close> and
  congruent to the argument), a supplied wind speed is stored as its maximum with 0, and
  visibility and precipitation are stored as given, whatever the value.
\<close>

theorem set_weather_partial_update:
  "set_weather vis (num_arg fog) (num_arg wdir) (num_arg wspeed) precip a =
     (None,
      a\<lparr>weather :=
          \<lparr> visibility = (if vis = PNone then visibility (weather a) else vis),
            fog_density = (case fog of None \<Rightarrow> fog_density (weather a) | Some x \<Rightarrow> max 0 (min 1 (num_val x))),
            wind_direction = (case wdir of None \<Rightarrow> wind_direction (weather a) | Some x \<Rightarrow> pymod (num_val x) 360),
            wind_speed = (case wspeed of None \<Rightarrow> wind_speed (weather a) | Some x \<Rightarrow> max 0 (num_val x)),
            precipitation = (if precip = PNone then precipitation (weather a) else precip) \<rparr>\<rparr>)
   \<and> 0 \<le> pymod x 360 \<and> pymod x 360 < 360 \<and> (\<exists>k::int. x = pymod x 360 + 360 * of_int k)
   \<and> fog_density (weather (snd (set_weather PNone (PNum (3 / 2)) PNone PNone PNone a))) = 1
   \<and> fog_density (weather (snd (set_weather PNone (PNum (- (2 / 10))) PNone PNone PNone a))) = 0"
proof -
  have main: "set_weather vis (num_arg fog) (num_arg wdir) (num_arg wspeed) precip a =
     (None,
      a\<lparr>weather :=
          \<lparr> visibility = (if vis = PNone then visibility (weather a) else vis),
            fog_density = (case fog of None \<Rightarrow> fog_density (weather a) | Some x \<Rightarrow> max 0 (min 1 (num_val x))),
            wind_direction = (case wdir of None \<Rightarrow> wind_direction (weather a) | Some x \<Rightarrow> pymod (num_val x) 360),
            wind_speed = (case wspeed of None \<Rightarrow> wind_speed (weather a) | Some x \<Rightarrow> max 0 (num_val x)),
            precipitation = (if precip = PNone then precipitation (weather a) else precip) \<rparr>\<rparr>)"
    by (cases fog; cases wdir; cases wspeed)
       (simp_all add: set_weather_def clamp01_def mod360_def max0_def bnd_def
          num_of_of_num of_num_not_None)
  have range: "0 \<le> pymod x 360 \<and> pymod x 360 < 360"
    using pymod_range [of 360 x] by simp
  have cong: "\<exists>k::int. x = pymod x 360 + 360 * of_int k"
    by (rule exI [of _ "\<lfloor>x / 360\<rfloor>"]) (simp add: pymod_def)
  have ex1: "fog_density (weather (snd (set_weather PNone (PNum (3 / 2)) PNone PNone PNone a))) = 1"
    by (simp add: set_weather_def clamp01_def bnd_def)
  have ex2: "fog_density (weather (snd (set_weather PNone (PNum (- (2 / 10))) PNone PNone PNone a))) = 0"
    by (simp add: set_weather_def clamp01_def bnd_def)
  from main range cong ex1 ex2 show ?thesis by blast
qed

theorem set_weather_partial_update_witness:
  "set_weather (PStr ''unlimited'') (PNum (3 / 2)) (PInt 725) PNone (PStr ''hail'')
     (Airport_init (PStr ''Los Rodeos Airport'') (PStr ''GCXO'') (Fl 0, Fl 0) [] [] [])
   = (None,
      (Airport_init (PStr ''Los Rodeos Airport'') (PStr ''GCXO'') (Fl 0, Fl 0) [] [] [])
        \<lparr>weather := \<lparr> visibility = PStr ''unlimited'', fog_density = 1, wind_direction = 5,
                      wind_speed = 0, precipitation = PStr ''hail'' \<rparr>\<rparr>)"
  using set_weather_partial_update
    [of "PStr ''unlimited''" "Some (NFloat (Fl (3 / 2)))" "Some (NInt 725)" None "PStr ''hail''"
        "Airport_init (PStr ''Los Rodeos Airport'') (PStr ''GCXO'') (Fl 0, Fl 0) [] [] []" 0]
  by (simp add: Airport_init_def pymod_def)







subsection \<open>Saving and loading\<close>

lemma to_num_of_float: "to_num (of_float f) = Some (NFloat f)"
  by (cases f) simp_all

lemma Vector2_of_vec: "Vector2 (of_vec p) = Inr p"
  by (simp add: of_vec_def to_num_of_float)

lemma coords_of_vec: "coords (of_vec p) = Inr (NFloat (fst p), NFloat (snd p))"
  by (simp add: of_vec_def to_num_of_float)

lemma vectors_of_vec: "vectors (map of_vec ps) = Inr ps"
  by (induction ps) (simp_all add: bnd_def Vector2_of_vec)

lemma calculate_heading_of_vec:
  "calculate_heading (of_vec s) (of_vec e) = Inr (derived_heading s e)"
  by (simp add: calculate_heading_def coords_of_vec bnd_def Let_def derived_heading_def)

lemma xy_Inr: "xy p = Inr d \<Longrightarrow> \<exists>v. p = Vec v \<and> d = of_vec v"
  by (cases p) simp_all

lemma try_map_xy: "try_map xy ps = Inr ds \<Longrightarrow> \<exists>vs. ps = map Vec vs \<and> ds = map of_vec vs"
proof (induction ps arbitrary: ds)
  case Nil
  then show ?case by simp
next
  case (Cons p ps)
  from Cons.prems obtain d ds' where d: "xy p = Inr d" and ds': "try_map xy ps = Inr ds'"
    and ds: "ds = d # ds'"
    by (auto simp: bnd_def split: sum.splits)
  from xy_Inr [OF d] obtain v where v: "p = Vec v" "d = of_vec v" by blast
  from Cons.IH [OF ds'] obtain vs where vs: "ps = map Vec vs" "ds' = map of_vec vs" by blast
  from v vs ds have "p # ps = map Vec (v # vs) \<and> ds = map of_vec (v # vs)" by simp
  then show ?case by (rule exI)
qed

lemma load_saved_runway:
  assumes "save_runway rw = Inr d"
  shows "load_runway d a = Inr (a\<lparr>runways := runways a @ [rebuild_runway rw]\<rparr>)"
proof -
  from assms obtain ds de where ds: "xy (start_pos rw) = Inr ds" and de: "xy (end_pos rw) = Inr de"
    and d: "d = PDict [(''name'', rw_name rw), (''start_pos'', ds), (''end_pos'', de),
                   (''width'', rw_width rw), (''active'', active rw)]"
    by (auto simp: save_runway_def bnd_def split: sum.splits)
  from xy_Inr [OF ds] obtain s where s: "start_pos rw = Vec s" "ds = of_vec s" by blast
  from xy_Inr [OF de] obtain e where e: "end_pos rw = Vec e" "de = of_vec e" by blast
  show ?thesis
    unfolding d s(2) e(2)
    by (simp add: load_runway_def add_runway_def bnd_def Vector2_of_vec
        calculate_heading_of_vec rebuild_runway_def Let_def s(1) e(1))
qed

lemma load_saved_runways:
  "try_map save_runway rws = Inr ds \<Longrightarrow>
   for_each load_runway ds a = (None, a\<lparr>runways := runways a @ map rebuild_runway rws\<rparr>)"
proof (induction rws arbitrary: ds a)
  case Nil
  then show ?case by simp
next
  case (Cons rw rws)
  from Cons.prems obtain d ds' where d: "save_runway rw = Inr d"
    and ds': "try_map save_runway rws = Inr ds'" and ds: "ds = d # ds'"
    by (auto simp: bnd_def split: sum.splits)
  show ?case
    unfolding ds by (simp add: load_saved_runway [OF d] Cons.IH [OF ds'])
qed

lemma load_saved_taxiway:
  assumes "save_taxiway tw = Inr d"
  shows "load_taxiway d a = Inr (a\<lparr>taxiways := taxiways a @ [tw]\<rparr>)"
proof -
  from assms obtain ps where ps: "try_map xy (points tw) = Inr ps"
    and d: "d = PDict [(''name'', tw_name tw), (''points'', PList ps), (''width'', tw_width tw)]"
    by (auto simp: save_taxiway_def bnd_def split: sum.splits)
  from try_map_xy [OF ps] obtain vs where vs: "points tw = map Vec vs" "ps = map of_vec vs"
    by blast
  have "\<lparr>tw_name = tw_name tw, points = map Vec vs, tw_width = tw_width tw\<rparr> = tw"
    using vs(1) by simp
  then show ?thesis
    unfolding d vs(2)
    by (simp add: load_taxiway_def add_taxiway_def bnd_def vectors_of_vec Let_def)
qed

lemma load_saved_taxiways:
  "try_map save_taxiway tws = Inr ds \<Longrightarrow>
   for_each load_taxiway ds a = (None, a\<lparr>taxiways := taxiways a @ tws\<rparr>)"
proof (induction tws arbitrary: ds a)
  case Nil
  then show ?case by simp
next
  case (Cons tw tws)
  from Cons.prems obtain d ds' where d: "save_taxiway tw = Inr d"
    and ds': "try_map save_taxiway tws = Inr ds'" and ds: "ds = d # ds'"
    by (auto simp: bnd_def split: sum.splits)
  show ?case
    unfolding ds by (simp add: load_saved_taxiway [OF d] Cons.IH [OF ds'])
qed

lemma load_saved_gate:
  assumes "save_gate g = Inr d"
  shows "load_gate d a = Inr (a\<lparr>gates := gates a @ [g\<lparr>occupied := False\<rparr>]\<rparr>)"
proof -
  from assms obtain p where p: "xy (gate_position g) = Inr p"
    and d: "d = PDict [(''name'', gate_name g), (''position'', p), (''heading'', gate_heading g),
                   (''size'', gate_size g), (''occupied'', PBool (occupied g))]"
    by (auto simp: save_gate_def bnd_def split: sum.splits)
  from xy_Inr [OF p] obtain v where v: "gate_position g = Vec v" "p = of_vec v" by blast
  have "\<lparr>gate_name = gate_name g, gate_position = Vec v, gate_heading = gate_heading g,
         gate_size = gate_size g, occupied = False\<rparr> = g\<lparr>occupied := False\<rparr>"
    using v(1) by simp
  then show ?thesis
    unfolding d v(2)
    by (simp add: load_gate_def add_gate_def bnd_def Vector2_of_vec Let_def)
qed

lemma load_saved_gates:
  "try_map save_gate gs = Inr ds \<Longrightarrow>
   for_each load_gate ds a =
     (None, a\<lparr>gates := gates a @ map (\<lambda>g. g\<lparr>occupied := False\<rparr>) gs\<rparr>)"
proof (induction gs arbitrary: ds a)
  case Nil
  then show ?case by simp
next
  case (Cons g gs)
  from Cons.prems obtain d ds' where d: "save_gate g = Inr d"
    and ds': "try_map save_gate gs = Inr ds'" and ds: "ds = d # ds'"
    by (auto simp: bnd_def split: sum.splits)
  show ?case
    unfolding ds by (simp add: load_saved_gate [OF d] Cons.IH [OF ds'])
qed

lemma load_saved_building:
  "load_building (save_building b) a = Inr (a\<lparr>buildings := buildings a @ [b]\<rparr>)"
  by (simp add: load_building_def save_building_def add_building_def bnd_def vectors_of_vec Let_def)

lemma load_saved_buildings:
  "for_each load_building (map save_building bs) a = (None, a\<lparr>buildings := buildings a @ bs\<rparr>)"
  by (induction bs arbitrary: a) (simp_all add: load_saved_building)

lemma load_saved_weather:
  "call_set_weather (save_weather w) a = (None, a\<lparr>weather := reload_weather w (weather a)\<rparr>)"
  by (simp add: call_set_weather_def save_weather_def weather_params_def kwarg_def
      set_weather_def clamp01_def mod360_def max0_def bnd_def reload_weather_def)

lemma load_saved:
  assumes "save_data a = Inr d"
  shows "load_from_file (Inr d) b =
     (True,
      b\<lparr> name := name a, code := code a, location := location a,
         runways := map rebuild_runway (runways a),
         taxiways := taxiways a,
         gates := map (\<lambda>g. g\<lparr>occupied := False\<rparr>) (gates a),
         buildings := buildings a,
         weather := reload_weather (weather a) (weather b) \<rparr>,
      [])"
proof -
  from assms obtain rws tws gts where rws: "try_map save_runway (runways a) = Inr rws"
    and tws: "try_map save_taxiway (taxiways a) = Inr tws"
    and gts: "try_map save_gate (gates a) = Inr gts"
    and d: "d = PDict [(''name'', name a), (''code'', code a), (''location'', of_vec (location a)),
                   (''runways'', PList rws), (''taxiways'', PList tws), (''gates'', PList gts),
                   (''buildings'', PList (map save_building (buildings a))),
                   (''weather'', save_weather (weather a))]"
    by (auto simp: save_data_def bnd_def split: sum.splits)
  show ?thesis
    unfolding d
    by (simp add: load_from_file_def load_body_def step_name_def step_code_def
        step_location_def step_runways_def step_taxiways_def step_gates_def step_buildings_def
        step_weather_def bnd_def Vector2_of_vec load_saved_runways [OF rws]
        load_saved_taxiways [OF tws] load_saved_gates [OF gts] load_saved_buildings
        load_saved_weather)
qed

lemma fval_fsub: "fval (fsub a b) = fval a - fval b"
  by (simp add: fsub_def)

lemma fval_fneg: "fval (fneg a) = - fval a"
  by (cases a) simp_all

lemma fval_to_float: "fval (to_float n) = num_val n"
  by (cases n) simp_all

lemma num_val_sub: "num_val (num_sub m n) = num_val m - num_val n"
  by (cases m; cases n) (simp_all add: fval_fsub)

lemma num_val_neg: "num_val (num_neg n) = - num_val n"
  by (cases n) (simp_all add: fval_fneg)

lemma heading_half_turn:
  "pymod (degrees pi) 360 = 180" "pymod (degrees (- pi)) 360 = 180"
  by (simp_all add: degrees_def pymod_def)

text \<open>Away from the origin the heading depends on the values alone, not on a zero's sign.\<close>

lemma heading_by_value:
  assumes y: "fval y = fval y'" and x: "fval x = fval x'"
    and nz: "fval y \<noteq> 0 \<or> fval x \<noteq> 0"
  shows "pymod (degrees (atan2 y x)) 360 = pymod (degrees (atan2 y' x')) 360"
proof -
  consider "0 < fval x" | "fval x < 0" "fval y \<noteq> 0" | "fval x < 0" "fval y = 0"
    | "fval x = 0" "fval y \<noteq> 0"
    using nz by linarith
  then show ?thesis
  proof cases
    case 1
    then show ?thesis using x y by (simp add: atan2_def Let_def)
  next
    case 2
    then show ?thesis using x y by (simp add: atan2_def Let_def)
  next
    case 3
    have "atan2 y x = pi \<or> atan2 y x = - pi"
      using 3 by (auto simp: atan2_def Let_def)
    moreover have "atan2 y' x' = pi \<or> atan2 y' x' = - pi"
      using 3 x y by (auto simp: atan2_def Let_def)
    ultimately show ?thesis using heading_half_turn by auto
  next
    case 4
    then show ?thesis using x y by (simp add: atan2_def Let_def)
  qed
qed

lemma coords_Inr:
  "coords v = Inr q \<Longrightarrow>
   \<exists>a b rest. v = PList (a # b # rest) \<and> to_num a = Some (fst q) \<and> to_num b = Some (snd q)"
  by (cases v rule: coords.cases) (auto split: option.splits)

lemma Vector2_coords_agree:
  assumes "Vector2 v = Inr p" and "coords v = Inr q"
  shows "p = (to_float (fst q), to_float (snd q))"
proof -
  from coords_Inr [OF assms(2)] obtain a b rest where v: "v = PList (a # b # rest)"
    and a: "to_num a = Some (fst q)" and b: "to_num b = Some (snd q)" by blast
  show ?thesis
  proof (cases rest)
    case Nil
    with assms(1) v a b show ?thesis by simp
  next
    case (Cons c cs)
    with assms(1) v show ?thesis by simp
  qed
qed

lemma add_runway_derived:
  assumes "add_runway nm sp ep w act c = Inr (rw, c')"
  shows "\<exists>s e. start_pos rw = Vec s \<and> end_pos rw = Vec e
           \<and> rw_length rw = distance_to s e
           \<and> (\<not> same_point s e \<longrightarrow> rw_heading rw = derived_heading s e \<and> derived_fields rw)"
proof -
  from assms obtain s e h where s: "Vector2 sp = Inr s" and e: "Vector2 ep = Inr e"
    and h: "calculate_heading sp ep = Inr h"
    and rw: "rw = \<lparr> rw_name = nm, start_pos = Vec s, end_pos = Vec e, rw_width = w,
                  active = act, rw_length = distance_to s e, rw_heading = h \<rparr>"
    by (auto simp: add_runway_def bnd_def Let_def split: sum.splits)
  from h obtain qe qs where qe: "coords ep = Inr qe" and qs: "coords sp = Inr qs"
    and h': "h = pymod (degrees (atan2 (to_float (num_sub (fst qe) (fst qs)))
                 (to_float (num_neg (num_sub (snd qe) (snd qs)))))) 360"
    by (auto simp: calculate_heading_def bnd_def Let_def split: sum.splits)
  note s' = Vector2_coords_agree [OF s qs] and e' = Vector2_coords_agree [OF e qe]
  have far: "rw_heading rw = derived_heading s e \<and> derived_fields rw" if "\<not> same_point s e"
  proof -
    have 1: "fval (to_float (num_sub (fst qe) (fst qs))) = fval (fsub (fst e) (fst s))"
      by (simp add: s' e' fval_fsub fval_to_float num_val_sub)
    have 2: "fval (to_float (num_neg (num_sub (snd qe) (snd qs))))
        = fval (fneg (fsub (snd e) (snd s)))"
      by (simp add: s' e' fval_fsub fval_fneg fval_to_float num_val_sub num_val_neg)
    have 3: "fval (to_float (num_sub (fst qe) (fst qs))) \<noteq> 0
        \<or> fval (to_float (num_neg (num_sub (snd qe) (snd qs)))) \<noteq> 0"
      using that
      by (auto simp: same_point_def s' e' fval_to_float num_val_sub num_val_neg)
    from heading_by_value [OF 1 2 3] have "h = derived_heading s e"
      by (simp add: h' derived_heading_def)
    then show ?thesis by (simp add: rw derived_fields_def)
  qed
  have "start_pos rw = Vec s" "end_pos rw = Vec e" "rw_length rw = distance_to s e"
    by (simp_all add: rw)
  with far show ?thesis by blast
qed

lemma try_map_each: "try_map f xs = Inr ys \<Longrightarrow> x \<in> set xs \<Longrightarrow> \<exists>y. f x = Inr y"
proof (induction xs arbitrary: ys)
  case Nil
  then show ?case by simp
next
  case (Cons z zs)
  from Cons.prems(1) obtain y ys' where "f z = Inr y" "try_map f zs = Inr ys'"
    by (auto simp: bnd_def split: sum.splits)
  with Cons.IH Cons.prems(2) show ?case by auto
qed

lemma save_runway_Vec:
  "save_runway rw = Inr d \<Longrightarrow> \<exists>s e. start_pos rw = Vec s \<and> end_pos rw = Vec e"
  by (auto simp: save_runway_def bnd_def split: sum.splits dest!: xy_Inr)

text \<open>
  C2. When \<^verbatim>\<open>save_to_file\<close> has written the file, loading it (into any airport) succeeds
  and reproduces the name, the code and the location, and for each runway, in order, the
  name, start, end, width and active flag. The runway's length and heading are not in the
  file (and would be ignored if they were): the load recomputes them from the end points.
  The recomputed length is the length \<^verbatim>\<open>add_runway\<close> stored, and the recomputed heading
  is the heading \<^verbatim>\<open>add_runway\<close> stored whenever the two end points differ; so runways
  whose derived fields are those of their end points are loaded as they were saved.
  (For a runway whose end points coincide the two headings can differ: see the
  counterexample.) Numbers are not rounded here, so "within floating-point tolerance"
  reads as equality.
\<close>

theorem save_load_round_trip:
  "(save_to_file None a = Inr (True, Some d, out) \<longrightarrow>
      (\<exists>b'. load_from_file (Inr d) b = (True, b', [])
         \<and> name b' = name a \<and> code b' = code a \<and> location b' = location a
         \<and> list_all2
             (\<lambda>r' r. rw_name r' = rw_name r \<and> start_pos r' = start_pos r
                    \<and> end_pos r' = end_pos r \<and> rw_width r' = rw_width r
                    \<and> active r' = active r
                    \<and> (\<exists>s e. start_pos r = Vec s \<and> end_pos r = Vec e
                          \<and> rw_length r' = distance_to s e
                          \<and> rw_heading r' = derived_heading s e))
             (runways b') (runways a)
         \<and> ((\<forall>r \<in> set (runways a). derived_fields r) \<longrightarrow> runways b' = runways a)))
   \<and> load_runway (PDict ((''length'', l) # (''heading'', h) # kvs)) c = load_runway (PDict kvs) c
   \<and> (add_runway nm sp ep w act c = Inr (rw, c') \<longrightarrow>
        (\<exists>s e. start_pos rw = Vec s \<and> end_pos rw = Vec e
           \<and> rw_length rw = distance_to s e
           \<and> (\<not> same_point s e \<longrightarrow> rw_heading rw = derived_heading s e \<and> derived_fields rw)))"
proof -
  have ld: "(\<exists>b'. load_from_file (Inr d) b = (True, b', [])
         \<and> name b' = name a \<and> code b' = code a \<and> location b' = location a
         \<and> list_all2
             (\<lambda>r' r. rw_name r' = rw_name r \<and> start_pos r' = start_pos r
                    \<and> end_pos r' = end_pos r \<and> rw_width r' = rw_width r
                    \<and> active r' = active r
                    \<and> (\<exists>s e. start_pos r = Vec s \<and> end_pos r = Vec e
                          \<and> rw_length r' = distance_to s e
                          \<and> rw_heading r' = derived_heading s e))
             (runways b') (runways a)
         \<and> ((\<forall>r \<in> set (runways a). derived_fields r) \<longrightarrow> runways b' = runways a))"
    if sv: "save_to_file None a = Inr (True, Some d, out)"
  proof -
    let ?b' = "b\<lparr> name := name a, code := code a, location := location a,
         runways := map rebuild_runway (runways a),
         taxiways := taxiways a,
         gates := map (\<lambda>g. g\<lparr>occupied := False\<rparr>) (gates a),
         buildings := buildings a,
         weather := reload_weather (weather a) (weather b) \<rparr>"
    from sv have d: "save_data a = Inr d"
      by (auto simp: save_to_file_def bnd_def split: sum.splits)
    then obtain rws where rws: "try_map save_runway (runways a) = Inr rws"
      by (auto simp: save_data_def bnd_def split: sum.splits)
    have vecs: "\<exists>s e. start_pos r = Vec s \<and> end_pos r = Vec e" if "r \<in> set (runways a)" for r
      using try_map_each [OF rws that] save_runway_Vec by blast
    have l: "load_from_file (Inr d) b = (True, ?b', [])" by (rule load_saved [OF d])
    have flds: "list_all2
             (\<lambda>r' r. rw_name r' = rw_name r \<and> start_pos r' = start_pos r
                    \<and> end_pos r' = end_pos r \<and> rw_width r' = rw_width r
                    \<and> active r' = active r
                    \<and> (\<exists>s e. start_pos r = Vec s \<and> end_pos r = Vec e
                          \<and> rw_length r' = distance_to s e
                          \<and> rw_heading r' = derived_heading s e))
             (map rebuild_runway (runways a)) (runways a)"
      unfolding list_all2_map1 list_all2_same
    proof
      fix r assume "r \<in> set (runways a)"
      from vecs [OF this] obtain s e where "start_pos r = Vec s" "end_pos r = Vec e" by blast
      then show "rw_name (rebuild_runway r) = rw_name r
          \<and> start_pos (rebuild_runway r) = start_pos r
          \<and> end_pos (rebuild_runway r) = end_pos r
          \<and> rw_width (rebuild_runway r) = rw_width r
          \<and> active (rebuild_runway r) = active r
          \<and> (\<exists>s e. start_pos r = Vec s \<and> end_pos r = Vec e
                \<and> rw_length (rebuild_runway r) = distance_to s e
                \<and> rw_heading (rebuild_runway r) = derived_heading s e)"
        by (simp add: rebuild_runway_def)
    qed
    have same: "(\<forall>r \<in> set (runways a). derived_fields r)
        \<longrightarrow> map rebuild_runway (runways a) = runways a"
    proof
      assume all: "\<forall>r \<in> set (runways a). derived_fields r"
      have "map rebuild_runway (runways a) = map (\<lambda>r. r) (runways a)"
      proof (rule map_cong [OF refl])
        fix r assume "r \<in> set (runways a)"
        with all have "derived_fields r" by blast
        then show "rebuild_runway r = r"
          by (auto simp: derived_fields_def rebuild_runway_def split: position.splits)
      qed
      then show "map rebuild_runway (runways a) = runways a" by simp
    qed
    show ?thesis
      by (rule exI [of _ ?b']) (use l flds same in simp)
  qed
  have ign: "load_runway (PDict ((''length'', l) # (''heading'', h) # kvs)) c
      = load_runway (PDict kvs) c"
    by (simp add: load_runway_def)
  have der: "add_runway nm sp ep w act c = Inr (rw, c') \<longrightarrow>
        (\<exists>s e. start_pos rw = Vec s \<and> end_pos rw = Vec e
           \<and> rw_length rw = distance_to s e
           \<and> (\<not> same_point s e \<longrightarrow> rw_heading rw = derived_heading s e \<and> derived_fields rw))"
    using add_runway_derived by blast
  from ld ign der show ?thesis by blast
qed

theorem save_load_round_trip_witness:
  "save_to_file None
     (Airport_init (PStr ''Los Rodeos Airport'') (PStr ''GCXO'') (Fl 0, Fl 0)
          [\<lparr> rw_name = PStr ''09/27'', start_pos = Vec (Fl 0, Fl 0), end_pos = Vec (Fl 100, Fl 0),
            rw_width = PInt 45, active = PBool True, rw_length = 100, rw_heading = 90 \<rparr>]
          [] [])
   = Inr (True,
       Some (PDict [(''name'', PStr ''Los Rodeos Airport''), (''code'', PStr ''GCXO''),
              (''location'', PList [PNum 0, PNum 0]),
              (''runways'', PList [PDict [(''name'', PStr ''09/27''), (''start_pos'', PList [PNum 0, PNum 0]),
                 (''end_pos'', PList [PNum 100, PNum 0]), (''width'', PInt 45),
                 (''active'', PBool True)]]),
              (''taxiways'', PList []), (''gates'', PList []), (''buildings'', PList []),
              (''weather'',
               PDict [(''visibility'', PInt 10000), (''fog_density'', PNum 0),
                      (''wind_direction'', PNum 0), (''wind_speed'', PNum 0),
                      (''precipitation'', PNone)])]),
       [])
   \<and> (\<exists>b'. load_from_file
          (Inr (PDict [(''name'', PStr ''Los Rodeos Airport''), (''code'', PStr ''GCXO''),
              (''location'', PList [PNum 0, PNum 0]),
              (''runways'', PList [PDict [(''name'', PStr ''09/27''), (''start_pos'', PList [PNum 0, PNum 0]),
                 (''end_pos'', PList [PNum 100, PNum 0]), (''width'', PInt 45),
                 (''active'', PBool True)]]),
              (''taxiways'', PList []), (''gates'', PList []), (''buildings'', PList []),
              (''weather'',
               PDict [(''visibility'', PInt 10000), (''fog_density'', PNum 0),
                      (''wind_direction'', PNum 0), (''wind_speed'', PNum 0),
                      (''precipitation'', PNone)])]))
          (Airport_init (PStr ''new'') (PStr ''XXXX'') (Fl 7, Fl 7) [] [] [])
        = (True, b', [])
      \<and> name b' = PStr ''Los Rodeos Airport'' \<and> code b' = PStr ''GCXO''
      \<and> location b' = (Fl 0, Fl 0)
      \<and> runways b' =
          [\<lparr> rw_name = PStr ''09/27'', start_pos = Vec (Fl 0, Fl 0), end_pos = Vec (Fl 100, Fl 0),
            rw_width = PInt 45, active = PBool True, rw_length = 100, rw_heading = 90 \<rparr>])"
proof -
  let ?a = "(Airport_init (PStr ''Los Rodeos Airport'') (PStr ''GCXO'') (Fl 0, Fl 0)
          [\<lparr> rw_name = PStr ''09/27'', start_pos = Vec (Fl 0, Fl 0), end_pos = Vec (Fl 100, Fl 0),
            rw_width = PInt 45, active = PBool True, rw_length = 100, rw_heading = 90 \<rparr>]
          [] [])"
  let ?d = "(PDict [(''name'', PStr ''Los Rodeos Airport''), (''code'', PStr ''GCXO''),
              (''location'', PList [PNum 0, PNum 0]),
              (''runways'', PList [PDict [(''name'', PStr ''09/27''), (''start_pos'', PList [PNum 0, PNum 0]),
                 (''end_pos'', PList [PNum 100, PNum 0]), (''width'', PInt 45),
                 (''active'', PBool True)]]),
              (''taxiways'', PList []), (''gates'', PList []), (''buildings'', PList []),
              (''weather'',
               PDict [(''visibility'', PInt 10000), (''fog_density'', PNum 0),
                      (''wind_direction'', PNum 0), (''wind_speed'', PNum 0),
                      (''precipitation'', PNone)])])"
  let ?b = "(Airport_init (PStr ''new'') (PStr ''XXXX'') (Fl 7, Fl 7) [] [] [])"
  have sv: "save_to_file None ?a = Inr (True, Some ?d, [])"
    by (simp add: save_to_file_def save_data_def save_runway_def save_weather_def bnd_def
        of_vec_def Airport_init_def)
  have der: "\<forall>r \<in> set (runways ?a). derived_fields r"
    by (simp add: Airport_init_def derived_fields_def derived_heading_def atan2_def
        degrees_def pymod_def distance_to_def fsub_def)
  from save_load_round_trip [of ?a ?d "[]" ?b] sv
  obtain b' where ld: "load_from_file (Inr ?d) ?b = (True, b', [])"
    and nm: "name b' = name ?a" "code b' = code ?a" "location b' = location ?a"
    and rws: "(\<forall>r \<in> set (runways ?a). derived_fields r) \<longrightarrow> runways b' = runways ?a"
    by blast
  from rws der have "runways b' = runways ?a" by blast
  with ld nm have "\<exists>b'. load_from_file (Inr ?d) ?b = (True, b', [])
      \<and> name b' = PStr ''Los Rodeos Airport'' \<and> code b' = PStr ''GCXO''
      \<and> location b' = (Fl 0, Fl 0)
      \<and> runways b' = [\<lparr> rw_name = PStr ''09/27'', start_pos = Vec (Fl 0, Fl 0), end_pos = Vec (Fl 100, Fl 0),
            rw_width = PInt 45, active = PBool True, rw_length = 100, rw_heading = 90 \<rparr>]"
    by (simp add: Airport_init_def)
  with sv show ?thesis by (rule conjI)
qed

text \<open>
  The claim as written fails for a runway of length zero made from int coordinates.
  \<^verbatim>\<open>add_runway("05/23", (5, 5), (5, 5))\<close> computes the heading from int differences,
  \<^verbatim>\<open>atan2(0, 0)\<close>, and stores 0. The load computes it from the vectors read back, whose
  coordinates are floats: the y difference is \<^verbatim>\<open>0.0\<close>, its negation \<^verbatim>\<open>-0.0\<close>, and
  \<^verbatim>\<open>atan2(0.0, -0.0)\<close> is \<open>pi\<close>, so the loaded runway has heading 180.
\<close>

theorem save_load_round_trip_counterexample:
  "add_runway (PStr ''05/23'') (PList [PInt 5, PInt 5]) (PList [PInt 5, PInt 5]) (PInt 45)
     (PBool True) (Airport_init (PStr ''Los Rodeos Airport'') (PStr ''GCXO'') (Fl 0, Fl 0) [] [] [])
   = Inr (\<lparr> rw_name = PStr ''05/23'', start_pos = Vec (Fl 5, Fl 5), end_pos = Vec (Fl 5, Fl 5),
            rw_width = PInt 45, active = PBool True, rw_length = 0, rw_heading = 0 \<rparr>,
          (Airport_init (PStr ''Los Rodeos Airport'') (PStr ''GCXO'') (Fl 0, Fl 0)
          [\<lparr> rw_name = PStr ''05/23'', start_pos = Vec (Fl 5, Fl 5), end_pos = Vec (Fl 5, Fl 5),
            rw_width = PInt 45, active = PBool True, rw_length = 0, rw_heading = 0 \<rparr>]
          [] []))
   \<and> save_to_file None
        (Airport_init (PStr ''Los Rodeos Airport'') (PStr ''GCXO'') (Fl 0, Fl 0)
          [\<lparr> rw_name = PStr ''05/23'', start_pos = Vec (Fl 5, Fl 5), end_pos = Vec (Fl 5, Fl 5),
            rw_width = PInt 45, active = PBool True, rw_length = 0, rw_heading = 0 \<rparr>]
          [] [])
      = Inr (True,
          Some (PDict [(''name'', PStr ''Los Rodeos Airport''), (''code'', PStr ''GCXO''),
              (''location'', PList [PNum 0, PNum 0]),
              (''runways'', PList [PDict [(''name'', PStr ''05/23''), (''start_pos'', PList [PNum 5, PNum 5]),
                 (''end_pos'', PList [PNum 5, PNum 5]), (''width'', PInt 45),
                 (''active'', PBool True)]]),
              (''taxiways'', PList []), (''gates'', PList []), (''buildings'', PList []),
              (''weather'',
               PDict [(''visibility'', PInt 10000), (''fog_density'', PNum 0),
                      (''wind_direction'', PNum 0), (''wind_speed'', PNum 0),
                      (''precipitation'', PNone)])]),
          [])
   \<and> load_from_file
        (Inr (PDict [(''name'', PStr ''Los Rodeos Airport''), (''code'', PStr ''GCXO''),
              (''location'', PList [PNum 0, PNum 0]),
              (''runways'', PList [PDict [(''name'', PStr ''05/23''), (''start_pos'', PList [PNum 5, PNum 5]),
                 (''end_pos'', PList [PNum 5, PNum 5]), (''width'', PInt 45),
                 (''active'', PBool True)]]),
              (''taxiways'', PList []), (''gates'', PList []), (''buildings'', PList []),
              (''weather'',
               PDict [(''visibility'', PInt 10000), (''fog_density'', PNum 0),
                      (''wind_direction'', PNum 0), (''wind_speed'', PNum 0),
                      (''precipitation'', PNone)])]))
        (Airport_init (PStr ''Los Rodeos Airport'') (PStr ''GCXO'') (Fl 0, Fl 0)
          [\<lparr> rw_name = PStr ''05/23'', start_pos = Vec (Fl 5, Fl 5), end_pos = Vec (Fl 5, Fl 5),
            rw_width = PInt 45, active = PBool True, rw_length = 0, rw_heading = 0 \<rparr>]
          [] [])
      = (True,
         (Airport_init (PStr ''Los Rodeos Airport'') (PStr ''GCXO'') (Fl 0, Fl 0)
          [\<lparr> rw_name = PStr ''05/23'', start_pos = Vec (Fl 5, Fl 5), end_pos = Vec (Fl 5, Fl 5),
            rw_width = PInt 45, active = PBool True, rw_length = 0, rw_heading = 180 \<rparr>]
          [] []),
         [])
   \<and> \<bar>rw_heading \<lparr> rw_name = PStr ''05/23'', start_pos = Vec (Fl 5, Fl 5), end_pos = Vec (Fl 5, Fl 5),
            rw_width = PInt 45, active = PBool True, rw_length = 0, rw_heading = 180 \<rparr>
       - rw_heading \<lparr> rw_name = PStr ''05/23'', start_pos = Vec (Fl 5, Fl 5), end_pos = Vec (Fl 5, Fl 5),
            rw_width = PInt 45, active = PBool True, rw_length = 0, rw_heading = 0 \<rparr>\<bar> = 180"
proof -
  have 1: "add_runway (PStr ''05/23'') (PList [PInt 5, PInt 5]) (PList [PInt 5, PInt 5]) (PInt 45)
     (PBool True) (Airport_init (PStr ''Los Rodeos Airport'') (PStr ''GCXO'') (Fl 0, Fl 0) [] [] [])
   = Inr (\<lparr> rw_name = PStr ''05/23'', start_pos = Vec (Fl 5, Fl 5), end_pos = Vec (Fl 5, Fl 5),
            rw_width = PInt 45, active = PBool True, rw_length = 0, rw_heading = 0 \<rparr>,
          (Airport_init (PStr ''Los Rodeos Airport'') (PStr ''GCXO'') (Fl 0, Fl 0)
          [\<lparr> rw_name = PStr ''05/23'', start_pos = Vec (Fl 5, Fl 5), end_pos = Vec (Fl 5, Fl 5),
            rw_width = PInt 45, active = PBool True, rw_length = 0, rw_heading = 0 \<rparr>]
          [] []))"
    by (simp add: add_runway_def calculate_heading_def bnd_def Let_def distance_to_def
        atan2_def degrees_def pymod_def Airport_init_def)
  have 2: "save_to_file None
        (Airport_init (PStr ''Los Rodeos Airport'') (PStr ''GCXO'') (Fl 0, Fl 0)
          [\<lparr> rw_name = PStr ''05/23'', start_pos = Vec (Fl 5, Fl 5), end_pos = Vec (Fl 5, Fl 5),
            rw_width = PInt 45, active = PBool True, rw_length = 0, rw_heading = 0 \<rparr>]
          [] [])
      = Inr (True,
          Some (PDict [(''name'', PStr ''Los Rodeos Airport''), (''code'', PStr ''GCXO''),
              (''location'', PList [PNum 0, PNum 0]),
              (''runways'', PList [PDict [(''name'', PStr ''05/23''), (''start_pos'', PList [PNum 5, PNum 5]),
                 (''end_pos'', PList [PNum 5, PNum 5]), (''width'', PInt 45),
                 (''active'', PBool True)]]),
              (''taxiways'', PList []), (''gates'', PList []), (''buildings'', PList []),
              (''weather'',
               PDict [(''visibility'', PInt 10000), (''fog_density'', PNum 0),
                      (''wind_direction'', PNum 0), (''wind_speed'', PNum 0),
                      (''precipitation'', PNone)])]),
          [])"
    by (simp add: save_to_file_def save_data_def save_runway_def save_weather_def bnd_def
        of_vec_def Airport_init_def)
  have 3: "load_from_file
        (Inr (PDict [(''name'', PStr ''Los Rodeos Airport''), (''code'', PStr ''GCXO''),
              (''location'', PList [PNum 0, PNum 0]),
              (''runways'', PList [PDict [(''name'', PStr ''05/23''), (''start_pos'', PList [PNum 5, PNum 5]),
                 (''end_pos'', PList [PNum 5, PNum 5]), (''width'', PInt 45),
                 (''active'', PBool True)]]),
              (''taxiways'', PList []), (''gates'', PList []), (''buildings'', PList []),
              (''weather'',
               PDict [(''visibility'', PInt 10000), (''fog_density'', PNum 0),
                      (''wind_direction'', PNum 0), (''wind_speed'', PNum 0),
                      (''precipitation'', PNone)])]))
        (Airport_init (PStr ''Los Rodeos Airport'') (PStr ''GCXO'') (Fl 0, Fl 0)
          [\<lparr> rw_name = PStr ''05/23'', start_pos = Vec (Fl 5, Fl 5), end_pos = Vec (Fl 5, Fl 5),
            rw_width = PInt 45, active = PBool True, rw_length = 0, rw_heading = 0 \<rparr>]
          [] [])
      = (True,
         (Airport_init (PStr ''Los Rodeos Airport'') (PStr ''GCXO'') (Fl 0, Fl 0)
          [\<lparr> rw_name = PStr ''05/23'', start_pos = Vec (Fl 5, Fl 5), end_pos = Vec (Fl 5, Fl 5),
            rw_width = PInt 45, active = PBool True, rw_length = 0, rw_heading = 180 \<rparr>]
          [] []),
         [])"
    by (simp add: load_from_file_def load_body_def step_name_def step_code_def
        step_location_def step_runways_def step_taxiways_def step_gates_def
        step_buildings_def step_weather_def call_set_weather_def weather_params_def kwarg_def
        set_weather_def clamp01_def mod360_def max0_def bnd_def load_runway_def
        add_runway_def calculate_heading_def Let_def distance_to_def atan2_def degrees_def
        pymod_def fsub_def of_vec_def Airport_init_def)
  have 4: "\<bar>rw_heading \<lparr> rw_name = PStr ''05/23'', start_pos = Vec (Fl 5, Fl 5), end_pos = Vec (Fl 5, Fl 5),
            rw_width = PInt 45, active = PBool True, rw_length = 0, rw_heading = 180 \<rparr>
       - rw_heading \<lparr> rw_name = PStr ''05/23'', start_pos = Vec (Fl 5, Fl 5), end_pos = Vec (Fl 5, Fl 5),
            rw_width = PInt 45, active = PBool True, rw_length = 0, rw_heading = 0 \<rparr>\<bar> = 180"
    by simp
  from 1 2 3 4 show ?thesis by (intro conjI)
qed

lemma for_each_invariant:
  assumes step: "\<And>x a a'. body x a = Inr a' \<Longrightarrow> P a \<Longrightarrow> P a'"
    and "P a" and "for_each body xs a = (e, a')"
  shows "P a'"
  using assms(2,3)
proof (induction xs arbitrary: a)
  case Nil
  then show ?case by simp
next
  case (Cons x xs)
  show ?case
  proof (cases "body x a")
    case (Inl err)
    with Cons.prems show ?thesis by simp
  next
    case (Inr a1)
    with Cons.prems have "for_each body xs a1 = (e, a')" by simp
    moreover from step [OF Inr Cons.prems(1)] have "P a1" .
    ultimately show ?thesis using Cons.IH by blast
  qed
qed

lemma run_steps_Cons_ok:
  "run_steps (f # fs) a = (None, a') \<Longrightarrow> \<exists>a1. f a = (None, a1) \<and> run_steps fs a1 = (None, a')"
  by (auto split: prod.splits option.splits)

lemma load_gate_unoccupied:
  "load_gate gd a = Inr a' \<Longrightarrow> \<forall>g \<in> set (gates a). \<not> occupied g \<Longrightarrow>
   \<forall>g \<in> set (gates a'). \<not> occupied g"
  by (auto simp: load_gate_def add_gate_def bnd_def Let_def split: sum.splits)

lemma step_gates_unoccupied:
  assumes "step_gates data a = (e, a')"
  shows "\<forall>g \<in> set (gates a'). \<not> occupied g"
proof (cases "bnd (dict_get data ''gates'' (PList [])) py_iter")
  case (Inl err)
  with assms show ?thesis by (auto simp: step_gates_def Let_def)
next
  case (Inr items)
  with assms have fe: "for_each load_gate items (a\<lparr>gates := []\<rparr>) = (e, a')"
    by (simp add: step_gates_def Let_def)
  show ?thesis
    by (rule for_each_invariant [where P = "\<lambda>x. \<forall>g \<in> set (gates x). \<not> occupied g", OF _ _ fe])
       (auto dest: load_gate_unoccupied)
qed

lemma load_building_gates: "load_building bd a = Inr a' \<Longrightarrow> gates a' = gates a"
  by (auto simp: load_building_def add_building_def bnd_def Let_def split: sum.splits)

lemma step_buildings_gates:
  assumes "step_buildings data a = (e, a')"
  shows "gates a' = gates a"
proof (cases "bnd (dict_get data ''buildings'' (PList [])) py_iter")
  case (Inl err)
  with assms show ?thesis by (auto simp: step_buildings_def Let_def)
next
  case (Inr items)
  with assms have fe: "for_each load_building items (a\<lparr>buildings := []\<rparr>) = (e, a')"
    by (simp add: step_buildings_def Let_def)
  show ?thesis
    by (rule for_each_invariant [where P = "\<lambda>x. gates x = gates a", OF _ _ fe])
       (auto dest: load_building_gates)
qed

lemma set_weather_gates: "set_weather v f wd ws p a = (e, a') \<Longrightarrow> gates a' = gates a"
  by (auto simp: set_weather_def bnd_def Let_def split: sum.splits if_splits)

lemma step_weather_gates: "step_weather data a = (e, a') \<Longrightarrow> gates a' = gates a"
  by (auto simp: step_weather_def call_set_weather_def
      split: pyval.splits option.splits if_splits dest: set_weather_gates)

lemma load_body_unoccupied:
  assumes "load_body rd a = (None, a')"
  shows "\<forall>g \<in> set (gates a'). \<not> occupied g"
proof -
  from assms obtain data where rs: "run_steps [step_name data, step_code data,
      step_location data, step_runways data, step_taxiways data, step_gates data,
      step_buildings data, step_weather data] a = (None, a')"
    by (auto simp: load_body_def split: sum.splits)
  from run_steps_Cons_ok [OF rs] obtain a1 where r1: "run_steps [step_code data,
      step_location data, step_runways data, step_taxiways data, step_gates data,
      step_buildings data, step_weather data] a1 = (None, a')" by blast
  from run_steps_Cons_ok [OF r1] obtain a2 where r2: "run_steps [
      step_location data, step_runways data, step_taxiways data, step_gates data,
      step_buildings data, step_weather data] a2 = (None, a')" by blast
  from run_steps_Cons_ok [OF r2] obtain a3 where r3: "run_steps [step_runways data,
      step_taxiways data, step_gates data, step_buildings data, step_weather data] a3
      = (None, a')" by blast
  from run_steps_Cons_ok [OF r3] obtain a4 where r4: "run_steps [
      step_taxiways data, step_gates data, step_buildings data, step_weather data] a4
      = (None, a')" by blast
  from run_steps_Cons_ok [OF r4] obtain a5 where r5: "run_steps [
      step_gates data, step_buildings data, step_weather data] a5 = (None, a')" by blast
  from run_steps_Cons_ok [OF r5] obtain a6 where g: "step_gates data a5 = (None, a6)"
    and r6: "run_steps [step_buildings data, step_weather data] a6 = (None, a')" by blast
  from run_steps_Cons_ok [OF r6] obtain a7 where b: "step_buildings data a6 = (None, a7)"
    and r7: "run_steps [step_weather data] a7 = (None, a')" by blast
  from run_steps_Cons_ok [OF r7] obtain a8 where w: "step_weather data a7 = (None, a8)"
    and r8: "run_steps [] a8 = (None, a')" by blast
  from r8 have "a8 = a'" by simp
  with step_weather_gates [OF w] step_buildings_gates [OF b] have "gates a' = gates a6" by simp
  with step_gates_unoccupied [OF g] show ?thesis by simp
qed

text \<open>
  C9. After a load that returned \<^verbatim>\<open>True\<close>, whatever the file held, no gate of the
  airport is occupied. \<^verbatim>\<open>save_to_file\<close> does write each gate's \<open>occupied\<close> flag (in
  every gate dict it assembles), but the load never reads the key: it rebuilds the gates
  through \<^verbatim>\<open>add_gate\<close>, which sets the flag to \<^verbatim>\<open>False\<close>. So the gates loaded from
  the document of a saved airport are the saved gates with their occupancy cleared.
\<close>

theorem loaded_gates_unoccupied:
  "(load_from_file rd a = (True, a', out) \<longrightarrow> (\<forall>g \<in> set (gates a'). \<not> occupied g))
   \<and> (save_gate g = Inr gd \<longrightarrow> subscript gd ''occupied'' = Inr (PBool (occupied g)))
   \<and> load_gate (PDict ((''occupied'', v) # kvs)) a = load_gate (PDict kvs) a
   \<and> (save_data b = Inr d \<longrightarrow>
        gates (fst (snd (load_from_file (Inr d) a)))
          = map (\<lambda>g. g\<lparr>occupied := False\<rparr>) (gates b))"
proof -
  have 1: "load_from_file rd a = (True, a', out) \<longrightarrow> (\<forall>g \<in> set (gates a'). \<not> occupied g)"
  proof
    assume "load_from_file rd a = (True, a', out)"
    then have "load_body rd a = (None, a')"
      by (auto simp: load_from_file_def split: prod.splits option.splits)
    then show "\<forall>g \<in> set (gates a'). \<not> occupied g" by (rule load_body_unoccupied)
  qed
  have 2: "save_gate g = Inr gd \<longrightarrow> subscript gd ''occupied'' = Inr (PBool (occupied g))"
    by (auto simp: save_gate_def bnd_def split: sum.splits)
  have 3: "load_gate (PDict ((''occupied'', v) # kvs)) a = load_gate (PDict kvs) a"
    by (simp add: load_gate_def)
  have 4: "save_data b = Inr d \<longrightarrow>
        gates (fst (snd (load_from_file (Inr d) a)))
          = map (\<lambda>g. g\<lparr>occupied := False\<rparr>) (gates b)"
    by (simp add: load_saved)
  from 1 2 3 4 show ?thesis by blast
qed

theorem loaded_gates_unoccupied_witness:
  "load_from_file
     (Inr (PDict [(''gates'',
        PList [PDict [(''name'', PStr ''A1''), (''position'', PList [PNum 1, PNum 2]),
                      (''occupied'', PBool True)]])]))
     (Airport_init (PStr ''Los Rodeos Airport'') (PStr ''GCXO'') (Fl 3, Fl 4) [] []
        [\<lparr> gate_name = PStr ''B7'', gate_position = Vec (Fl 9, Fl 9),
           gate_heading = PInt 90,
           gate_size = PInt 2, occupied = True \<rparr>])
   = (True,
      (Airport_init (PStr ''Los Rodeos Airport'') (PStr ''GCXO'') (Fl 0, Fl 0) [] []
        [\<lparr> gate_name = PStr ''A1'', gate_position = Vec (Fl 1, Fl 2),
           gate_heading = PInt 0,
           gate_size = PInt 1, occupied = False \<rparr>]),
      [])
   \<and> map occupied (gates
          (Airport_init (PStr ''Los Rodeos Airport'') (PStr ''GCXO'') (Fl 0, Fl 0) [] []
            [\<lparr> gate_name = PStr ''A1'', gate_position = Vec (Fl 1, Fl 2),
           gate_heading = PInt 0,
               gate_size = PInt 1, occupied = False \<rparr>])) = [False]"
  (is "?ld \<and> ?un")
proof -
  have ld: ?ld
    by (simp add: load_from_file_def load_body_def step_name_def step_code_def
        step_location_def step_runways_def step_taxiways_def step_gates_def
        step_buildings_def step_weather_def bnd_def load_gate_def add_gate_def
        Airport_init_def Let_def)
  with loaded_gates_unoccupied
  have "\<forall>g \<in> set (gates
          (Airport_init (PStr ''Los Rodeos Airport'') (PStr ''GCXO'') (Fl 0, Fl 0) [] []
            [\<lparr> gate_name = PStr ''A1'', gate_position = Vec (Fl 1, Fl 2),
           gate_heading = PInt 0,
               gate_size = PInt 1, occupied = False \<rparr>])). \<not> occupied g"
    by blast
  then have ?un by (simp add: Airport_init_def)
  with ld show ?thesis by (rule conjI)
qed

text \<open>
  C7. \<^verbatim>\<open>save_to_file\<close> lets an exception escape. It assembles its dict before the
  \<^verbatim>\<open>try\<close> block, so an \<^verbatim>\<open>AttributeError\<close> raised there, by a position that is not a
  \<^verbatim>\<open>Vector2\<close> in a runway dict the constructor was given, leaves the function whatever
  the write would have done: nothing is caught, nothing printed, no flag returned.
  \<^verbatim>\<open>load_from_file\<close>, whose whole body is inside its \<^verbatim>\<open>try\<close>, has no such path.
\<close>

theorem save_to_file_assembly_escapes:
  "save_to_file wr (a\<lparr>runways := rw\<lparr>start_pos := NotVec v\<rparr> # rws\<rparr>) = Inl AttributeError"
  by (simp add: save_to_file_def save_data_def save_runway_def bnd_def)

theorem save_to_file_assembly_escapes_witness:
  "save_to_file None
     (Airport_init (PStr ''Los Rodeos Airport'') (PStr ''GCXO'') (Fl 0, Fl 0)
        [\<lparr> rw_name = PStr ''12/30'', start_pos = NotVec (PList [PInt 0, PInt 0]),
           end_pos = NotVec (PList [PInt 100, PInt 0]), rw_width = PInt 45,
           active = PBool True, rw_length = 100, rw_heading = 90 \<rparr>]
        [] [])
   = Inl AttributeError"
  using save_to_file_assembly_escapes
    [where wr = None
       and a = "Airport_init (PStr ''Los Rodeos Airport'') (PStr ''GCXO'') (Fl 0, Fl 0) [] [] []"
       and rw = "\<lparr> rw_name = PStr ''12/30'', start_pos = NotVec (PList [PInt 0, PInt 0]),
           end_pos = NotVec (PList [PInt 100, PInt 0]), rw_width = PInt 45,
           active = PBool True, rw_length = 100, rw_heading = 90 \<rparr>"
       and v = "PList [PInt 0, PInt 0]" and rws = "[]"]
  by (simp add: Airport_init_def)

end
